theory Spec2Isabelle
  imports Complex_Main "HOL-Library.Sublist"
begin

section \<open>Python values used by the client\<close>

text \<open>
  A Python \<open>str\<close> is modelled as a \<open>string\<close>: a list of characters, each one a code
  point below 256, so that \<open>length\<close> is Python's \<open>len\<close>.  Python's unbounded \<open>int\<close> is
  \<open>int\<close>.  Every exception the modelled code can raise is a value of \<open>error\<close>; a
  computation that may raise returns \<open>error + 'a\<close> with \<open>Inl\<close> for the exception.
\<close>

text \<open>What \<open>requests.get\<close> and \<open>requests.post\<close> raise when no response arrives.\<close>

datatype request_failure = ConnectionError | Timeout | TooManyRedirects

datatype error =
    ZeroDivisionError
  | KeyError string
  | KeyErrorInt int
  | IndexError
  | TypeError
  | HTTPError nat
  | RequestException request_failure
  | JSONDecodeError
  | ReError
  | BuildkiteNotFoundException string

definition bind_err :: "error + 'a \<Rightarrow> ('a \<Rightarrow> error + 'b) \<Rightarrow> error + 'b" where
  "bind_err m f = (case m of Inl e \<Rightarrow> Inl e | Inr x \<Rightarrow> f x)"

subsection \<open>Decimal rendering of integers: \<open>str(int)\<close>\<close>

definition digit_char :: "nat \<Rightarrow> char" where
  "digit_char d = ''0123456789'' ! d"

function str_nat :: "nat \<Rightarrow> string" where
  "str_nat n = (if n < 10 then [digit_char n] else str_nat (n div 10) @ [digit_char (n mod 10)])"
  by pat_completeness auto
termination
  by (relation "measure (\<lambda>n. n)") auto

declare str_nat.simps [simp del]

definition str_int :: "int \<Rightarrow> string" where
  "str_int i = (if i < 0 then ''-'' @ str_nat (nat (- i)) else str_nat (nat i))"

subsection \<open>Format specifications \<open>: <w\<close>, \<open>: >w\<close> and \<open>str.rstrip\<close>\<close>

text \<open>
  \<open>format_left w s\<close> is \<open>f"{s : <w}"\<close>: the text followed by spaces up to the minimum
  width \<open>w\<close>; a longer text is not cut.  \<open>format_right\<close> is \<open>: >w\<close>, the spaces in front.
\<close>

definition format_left :: "nat \<Rightarrow> string \<Rightarrow> string" where
  "format_left w s = s @ replicate (w - length s) CHR '' ''"

definition format_right :: "nat \<Rightarrow> string \<Rightarrow> string" where
  "format_right w s = replicate (w - length s) CHR '' '' @ s"

text \<open>The characters \<open>str.isspace\<close> accepts among the code points below 256.\<close>

definition py_isspace :: "char \<Rightarrow> bool" where
  "py_isspace c = ((of_char c :: nat) \<in> set [9, 10, 11, 12, 13, 28, 29, 30, 31, 32, 133, 160])"

definition rstrip :: "string \<Rightarrow> string" where
  "rstrip s = rev (dropWhile py_isspace (rev s))"

subsection \<open>True division and the \<open>.0f\<close> presentation\<close>

text \<open>
  \<open>a / b\<close> on two Python ints raises \<open>ZeroDivisionError\<close> for \<open>b = 0\<close> and otherwise
  gives the float nearest to the quotient.  The model keeps the exact rational quotient:
  the formatter only divides \<open>100 * F\<close> by \<open>N\<close> with \<open>0 \<le> F \<le> N\<close>, a quotient of
  \<open>[0, 100]\<close>, which for every list length a machine can hold is at a distance of at
  least \<open>1 / (2 * N)\<close> from any half-integer it does not equal, far more than the
  float's rounding error; the float and the quotient therefore have the same \<open>.0f\<close>
  rendering.  Precision 0 with type \<open>f\<close> prints the nearest integer, a tie going to the
  even one (\<open>'%.0f' % 12.5\<close> is \<open>'12'\<close>), with the sign kept.
\<close>

definition true_div :: "int \<Rightarrow> int \<Rightarrow> error + rat" where
  "true_div a b = (if b = 0 then Inl ZeroDivisionError else Inr (of_int a / of_int b))"

definition round_half_even :: "rat \<Rightarrow> int" where
  "round_half_even x =
     (let f = \<lfloor>x\<rfloor>; d = x - of_int f
      in if d < 1 / 2 then f else if 1 / 2 < d then f + 1 else if even f then f else f + 1)"

definition format_0f :: "rat \<Rightarrow> string" where
  "format_0f x =
     (if x < 0 then ''-'' @ str_nat (nat (round_half_even (- x)))
      else str_nat (nat (round_half_even x)))"


section \<open>Domain model (\<open>bk.py\<close>)\<close>

definition BASE_URL :: string where
  "BASE_URL = ''https://buildkite.com/retool''"

definition BUILD_FINISHED_STATES :: "string list" where
  "BUILD_FINISHED_STATES = [''SKIPPED'', ''PASSED'', ''FAILED'', ''CANCELED'']"

definition BUILD_RUNNING_STATES :: "string list" where
  "BUILD_RUNNING_STATES =
     [''CREATING'', ''RUNNING'', ''FAILING'', ''CANCELING'', ''BLOCKED'', ''SCHEDULED'']"

definition JOB_FINISHED_STATES :: "string list" where
  "JOB_FINISHED_STATES =
     [''BLOCKED_FAILED'', ''UNBLOCKED_FAILED'', ''FINISHED'', ''CANCELED'', ''TIMED_OUT'',
      ''SKIPPED'']"

text \<open>
  The three dataclasses.  A dataclass checks nothing: each field holds the value it was
  given.  The records therefore take the types of the field values as parameters, for
  the fields declared \<open>str\<close>, \<open>int\<close> and \<open>bool\<close>.  \<open>typed_Build\<close> is a build whose fields
  hold values of the declared types, which is what \<open>Build.url\<close> and the formatter read;
  \<open>json_Build\<close> is a build whose fields hold the JSON values of a response, which is what
  the client stores.
\<close>

record 's Pipeline =
  name :: 's
  color :: 's
  slug :: 's

record ('s, 'b) Job =
  state :: 's
  passed :: 'b

record ('i, 's, 'b) Build =
  number :: 'i
  commit_message :: 's
  pipeline :: "'s Pipeline"
  state :: 's
  jobs :: "('s, 'b) Job list"

type_synonym typed_Build = "(int, string, bool) Build"

text \<open>The property \<open>Build.url\<close>: \<open>f"{BASE_URL}/{self.pipeline.slug}/builds/{self.number}"\<close>.\<close>

definition Build_url :: "typed_Build \<Rightarrow> string" where
  "Build_url self = BASE_URL @ ''/'' @ slug (pipeline self) @ ''/builds/'' @ str_int (number self)"

section \<open>Build summary formatter (\<open>display.py\<close>)\<close>

text \<open>The two counters of \<open>display_build\<close>: \<open>len(build.jobs)\<close> and the number of jobs whose
  state is in \<open>JOB_FINISHED_STATES\<close>.\<close>

definition total_jobs :: "typed_Build \<Rightarrow> int" where
  "total_jobs build = int (length (jobs build))"

definition finished_jobs :: "typed_Build \<Rightarrow> int" where
  "finished_jobs build =
     int (length (filter (\<lambda>job. Job.state job \<in> set JOB_FINISHED_STATES) (jobs build)))"

definition display_build :: "typed_Build \<Rightarrow> error + string" where
  "display_build build =
     (let output = format_left 50 (name (pipeline build)) @ '' ''
                     @ format_left 10 (str_int (number build))
      in case true_div (finished_jobs build * 100) (total_jobs build) of
           Inl e \<Rightarrow> Inl e
         | Inr pct \<Rightarrow>
             Inr (output
                  @ rstrip (format_right 6 (format_0f pct) @ ''% finished    ''
                            @ format_left 20 (''State: '' @ Build.state build))))"

section \<open>Decoded JSON\<close>

text \<open>
  What \<open>response.json()\<close> returns: \<open>None\<close>, a bool, an int, a str, a list or a dict
  with string keys, kept as the association list of its items (a key is looked up with
  \<open>map_of\<close>).  Numbers with a fraction are left out: no query of the client selects one.
\<close>

datatype json =
    JNull
  | JBool bool
  | JInt int
  | JStr string
  | JList "json list"
  | JObj "(string \<times> json) list"

text \<open>\<open>value[key]\<close> with a string key: a dict looks the key up and raises \<open>KeyError\<close> when
  it is absent; a list, a str, \<open>None\<close>, a bool and an int raise \<open>TypeError\<close>.\<close>

fun py_getitem :: "json \<Rightarrow> string \<Rightarrow> error + json" where
  "py_getitem (JObj items) key =
     (case map_of items key of None \<Rightarrow> Inl (KeyError key) | Some v \<Rightarrow> Inr v)"
| "py_getitem _ key = Inl TypeError"

text \<open>A chain of subscripts \<open>value[k1][k2]...\<close>, evaluated from the left.\<close>

fun py_path :: "json \<Rightarrow> string list \<Rightarrow> error + json" where
  "py_path v [] = Inr v"
| "py_path v (key # keys) = bind_err (py_getitem v key) (\<lambda>w. py_path w keys)"

text \<open>\<open>value[i]\<close> with an int: a list and a str of length \<open>n\<close> accept the indices from
  \<open>-n\<close> to \<open>n - 1\<close>, a negative one counting from the end, and raise \<open>IndexError\<close> for
  the others; a dict of string keys has no int key; the rest raise \<open>TypeError\<close>.\<close>

fun py_index :: "json \<Rightarrow> int \<Rightarrow> error + json" where
  "py_index (JList xs) i =
     (if - int (length xs) \<le> i \<and> i < int (length xs)
      then Inr (xs ! nat (i mod int (length xs)))
      else Inl IndexError)"
| "py_index (JStr s) i =
     (if - int (length s) \<le> i \<and> i < int (length s)
      then Inr (JStr [s ! nat (i mod int (length s))])
      else Inl IndexError)"
| "py_index (JObj items) i = Inl (KeyErrorInt i)"
| "py_index _ i = Inl TypeError"

text \<open>Truth value, as \<open>not value\<close> and \<open>if value\<close> test it.\<close>

fun py_truthy :: "json \<Rightarrow> bool" where
  "py_truthy JNull = False"
| "py_truthy (JBool b) = b"
| "py_truthy (JInt i) = (i \<noteq> 0)"
| "py_truthy (JStr s) = (s \<noteq> [])"
| "py_truthy (JList xs) = (xs \<noteq> [])"
| "py_truthy (JObj items) = (items \<noteq> [])"

text \<open>\<open>value == i\<close> for an int \<open>i\<close>: a bool compares as 0 or 1, other types are unequal.\<close>

fun py_eq_int :: "json \<Rightarrow> int \<Rightarrow> bool" where
  "py_eq_int (JInt n) i = (n = i)"
| "py_eq_int (JBool b) i = ((if b then 1 else 0) = i)"
| "py_eq_int _ i = False"

text \<open>The items a \<open>for\<close> loop visits: the elements of a list, the keys of a dict, the
  characters of a str; the other values raise \<open>TypeError\<close>.\<close>

fun py_iter :: "json \<Rightarrow> error + json list" where
  "py_iter (JList xs) = Inr xs"
| "py_iter (JObj items) = Inr (map (\<lambda>(k, v). JStr k) items)"
| "py_iter (JStr s) = Inr (map (\<lambda>c. JStr [c]) s)"
| "py_iter _ = Inl TypeError"

text \<open>The dataclasses as the client fills them: every field holds the JSON value found
  in the response, of whatever type it is (\<open>None\<close> for a null colour or message).\<close>

type_synonym json_Pipeline = "json Pipeline"

type_synonym json_Job = "(json, json) Job"

type_synonym json_Build = "(json, json, json) Build"

section \<open>The HTTP transport (\<open>requests\<close>)\<close>

text \<open>
  The library \<open>requests\<close> and the service behind it are outside the repository.  A
  \<open>request\<close> records what the client hands to \<open>requests.get\<close> or \<open>requests.post\<close>; a
  \<open>response\<close> holds what the client reads from the answer: the status code, the body
  (\<open>response.content\<close>) and the decoded body (\<open>response.json()\<close>, \<open>None\<close> standing for a
  body that is not JSON).  The \<open>transport\<close> is a parameter: given the requests sent so far
  and a request, the response, or the failure to get one, which the client sees as a
  \<open>RequestException\<close>.
\<close>

datatype http_method = GET | POST

record request =
  meth :: http_method
  url :: string
  headers :: "(string \<times> string) list"
  json_body :: "json option"
  allow_redirects :: bool

record response =
  status_code :: nat
  content :: string
  json_value :: "json option"

type_synonym transport = "request list \<Rightarrow> request \<Rightarrow> request_failure + response"

text \<open>\<open>response.raise_for_status()\<close> raises for a status from 400 to 599;
  \<open>response.json()\<close> raises when the body does not decode.\<close>

definition raise_for_status :: "response \<Rightarrow> error + unit" where
  "raise_for_status r =
     (if 400 \<le> status_code r \<and> status_code r < 600 then Inl (HTTPError (status_code r))
      else Inr ())"

definition response_json :: "response \<Rightarrow> error + json" where
  "response_json r = (case json_value r of None \<Rightarrow> Inl JSONDecodeError | Some v \<Rightarrow> Inr v)"

section \<open>The client (\<open>class Buildkite\<close>)\<close>

text \<open>
  An instance holds \<open>org_name\<close> and \<open>headers\<close>; \<open>rest_base_url\<close> and
  \<open>graphql_base_url\<close> are class attributes read through \<open>self\<close>, kept here as two more
  fields that \<open>__init__\<close> sets to the constants of the class.
\<close>

record Buildkite =
  rest_base_url :: string
  graphql_base_url :: string
  org_name :: string
  headers :: "(string \<times> string) list"

definition Buildkite_init :: "string \<Rightarrow> string \<Rightarrow> Buildkite" where
  "Buildkite_init org buildkite_token =
     \<lparr>rest_base_url = ''https://api.buildkite.com/v2'',
      graphql_base_url = ''https://graphql.buildkite.com/v1'',
      org_name = org,
      headers = [(''Authorization'', ''Bearer '' @ buildkite_token),
                 (''Content-Type'', ''application/json'')]\<rparr>"

text \<open>
  A method runs on a \<open>session\<close>: the instance it is called on and the requests sent so
  far.  It returns its result, or the exception, and the session it leaves behind.
\<close>

record session =
  client :: Buildkite
  sent :: "request list"

type_synonym 'a action = "session \<Rightarrow> (error + 'a) \<times> session"

definition bind_io :: "'a action \<Rightarrow> ('a \<Rightarrow> 'b action) \<Rightarrow> 'b action" where
  "bind_io m f s = (case m s of (Inl e, s') \<Rightarrow> (Inl e, s') | (Inr x, s') \<Rightarrow> f x s')"

definition lift_err :: "error + 'a \<Rightarrow> 'a action" where
  "lift_err r s = (r, s)"

definition send :: "transport \<Rightarrow> request \<Rightarrow> response action" where
  "send net rq s =
     (case net (sent s) rq of Inl failure \<Rightarrow> Inl (RequestException failure) | Inr r \<Rightarrow> Inr r,
      s\<lparr>sent := sent s @ [rq]\<rparr>)"

subsection \<open>The three request helpers\<close>

definition graphql_request :: "Buildkite \<Rightarrow> string \<Rightarrow> (string \<times> json) list \<Rightarrow> request" where
  "graphql_request self query variables =
     \<lparr>meth = POST, url = graphql_base_url self, headers = Buildkite.headers self,
      json_body = Some (JObj [(''query'', JStr query), (''variables'', JObj variables)]),
      allow_redirects = True\<rparr>"

definition graphql_post :: "transport \<Rightarrow> string \<Rightarrow> (string \<times> json) list \<Rightarrow> json action" where
  "graphql_post net query variables s =
     bind_io (send net (graphql_request (client s) query variables))
       (\<lambda>response. lift_err (bind_err (raise_for_status response) (\<lambda>_. response_json response)))
       s"

definition rest_post :: "transport \<Rightarrow> string \<Rightarrow> json \<Rightarrow> json action" where
  "rest_post net u body s =
     bind_io (send net \<lparr>meth = POST, url = u, headers = Buildkite.headers (client s),
                        json_body = Some body, allow_redirects = True\<rparr>)
       (\<lambda>response. lift_err (bind_err (raise_for_status response) (\<lambda>_. response_json response)))
       s"

definition rest_get :: "transport \<Rightarrow> string \<Rightarrow> json action" where
  "rest_get net u s =
     bind_io (send net \<lparr>meth = GET, url = u, headers = Buildkite.headers (client s),
                        json_body = None, allow_redirects = True\<rparr>)
       (\<lambda>response. lift_err (bind_err (raise_for_status response) (\<lambda>_. response_json response)))
       s"

subsection \<open>The GraphQL documents\<close>

text \<open>The text between the triple quotes of each method, line by line.\<close>

fun join_lines :: "string list \<Rightarrow> string" where
  "join_lines [] = []"
| "join_lines [l] = l"
| "join_lines (l # ls) = l @ CHR 0x0A # join_lines ls"

definition getJobArtifactCount_query :: string where
  \<open>getJobArtifactCount_query =
     join_lines
     ['''',
      ''        query getJobArtifactCount($job_id: ID!) {'',
      ''            job(uuid: $job_id) {'',
      ''                ... on JobTypeCommand {'',
      ''                    artifacts {'',
      ''                        count'',
      ''                    }'',
      ''                }'',
      ''            }'',
      ''        }'',
      ''        '']\<close>

definition getJobArtfacts_query :: string where
  \<open>getJobArtfacts_query =
     join_lines
     ['''',
      ''        query getJobArtfacts($job_id: ID!, $artifact_count: Int) {'',
      ''            job(uuid: $job_id) {'',
      ''                ... on JobTypeCommand {'',
      ''                    artifacts(first: $artifact_count) {'',
      ''                        edges {'',
      ''                            node {'',
      ''                                downloadURL'',
      ''                            }'',
      ''                        }'',
      ''                    }'',
      ''                }'',
      ''            }'',
      ''        }'',
      ''        '']\<close>

definition getBuildFromCommit_query :: string where
  \<open>getBuildFromCommit_query =
     join_lines
     ['''',
      ''        query getBuildFromCommit($commit_sha: [String!]) {'',
      ''            pipeline(slug:"retool/retool-development-dot-tests"){'',
      ''                builds(commit: $commit_sha) {'',
      ''                    edges {'',
      ''                        node {'',
      ''                            url'',
      ''                        }'',
      ''                    }'',
      ''                }'',
      ''            }'',
      ''        }'',
      ''        '']\<close>

definition getBuildFromBranch_query :: string where
  \<open>getBuildFromBranch_query =
     join_lines
     ['''',
      ''        query getBuildFromBranch($branch: [String!]) {'',
      ''            pipeline(slug:"retool/retool-development-dot-tests"){'',
      ''                builds(branch: $branch) {'',
      ''                    edges {'',
      ''                        node {'',
      ''                            url'',
      ''                        }'',
      ''                    }'',
      ''                }'',
      ''            }'',
      ''        }'',
      ''        '']\<close>

definition GetUserBuilds_query :: string where
  \<open>GetUserBuilds_query =
     join_lines
     ['''',
      ''        query GetUserBuilds($limit: Int, $state_filter: [BuildStates!]) {'',
      ''            viewer {'',
      ''                user {'',
      ''                    builds(first: $limit, state: $state_filter) {'',
      ''                        edges {'',
      ''                            node {'',
      ''                                pipeline {'',
      ''                                    name'',
      ''                                    color'',
      ''                                    slug'',
      ''                                }'',
      ''                                message'',
      ''                                number'',
      ''                                state'',
      ''                                jobs(first: 100) {'',
      ''                                    edges {'',
      ''                                        node {'',
      ''                                            ... on JobTypeCommand {'',
      ''                                                state'',
      ''                                                passed'',
      ''                                            }'',
      ''                                        }'',
      ''                                    }'',
      ''                                }'',
      ''                            }'',
      ''                        }'',
      ''                    }'',
      ''                }'',
      ''            }'',
      ''        }'',
      ''        '']\<close>

subsection \<open>Artifacts\<close>

definition get_job_artifact_count :: "transport \<Rightarrow> string \<Rightarrow> json action" where
  "get_job_artifact_count net job_id =
     bind_io (graphql_post net getJobArtifactCount_query [(''job_id'', JStr job_id)])
       (\<lambda>result. lift_err (py_path result [''data'', ''job'', ''artifacts'', ''count'']))"

text \<open>
  \<open>re.search\<close> belongs to Python's library and is a parameter of the model: from the
  pattern and the value searched, whether a match was found, or the exception raised (a
  pattern that does not compile, a value that is not a string).
\<close>

type_synonym re_search = "string \<Rightarrow> json \<Rightarrow> error + bool"

text \<open>
  The list comprehension of \<open>get_job_artifacts\<close>: for each edge in turn the condition
  \<open>regex_filter is None or re.search(regex_filter, edge["node"]["downloadURL"])\<close>, and
  \<open>edge["node"]\<close> for an edge that passes it.
\<close>

fun artifact_nodes :: "re_search \<Rightarrow> string option \<Rightarrow> json list \<Rightarrow> error + json list" where
  "artifact_nodes search regex_filter [] = Inr []"
| "artifact_nodes search regex_filter (edge # edges) =
     bind_err
       (case regex_filter of
          None \<Rightarrow> Inr True
        | Some pattern \<Rightarrow>
            bind_err (py_path edge [''node'', ''downloadURL'']) (\<lambda>u. search pattern u))
       (\<lambda>keep.
          if keep
          then bind_err (py_getitem edge ''node'')
                 (\<lambda>node. bind_err (artifact_nodes search regex_filter edges)
                    (\<lambda>rest. Inr (node # rest)))
          else artifact_nodes search regex_filter edges)"

definition get_job_artifacts ::
  "re_search \<Rightarrow> transport \<Rightarrow> string \<Rightarrow> string option \<Rightarrow> (json list) action" where
  "get_job_artifacts search net job_id regex_filter =
     bind_io (get_job_artifact_count net job_id)
       (\<lambda>artifact_count.
          if py_eq_int artifact_count 0 then lift_err (Inr [])
          else bind_io
                 (graphql_post net getJobArtfacts_query
                    [(''job_id'', JStr job_id), (''artifact_count'', artifact_count)])
                 (\<lambda>result.
                    lift_err
                      (bind_err (py_path result [''data'', ''job'', ''artifacts'', ''edges''])
                         (\<lambda>edges. bind_err (py_iter edges)
                            (\<lambda>es. artifact_nodes search regex_filter es)))))"

subsection \<open>REST operations\<close>

definition get_build_data :: "transport \<Rightarrow> string \<Rightarrow> int \<Rightarrow> json action" where
  "get_build_data net pipeline_slug build_id s =
     rest_get net
       (rest_base_url (client s) @ ''/organizations/'' @ org_name (client s) @ ''/pipelines/''
        @ pipeline_slug @ ''/builds/'' @ str_int build_id @ ''?include_retried_jobs=true'')
       s"

definition get_artifact_content :: "transport \<Rightarrow> string \<Rightarrow> string action" where
  "get_artifact_content net artifact_url s =
     bind_io (send net \<lparr>meth = GET, url = artifact_url, headers = Buildkite.headers (client s),
                        json_body = None, allow_redirects = True\<rparr>)
       (\<lambda>response. lift_err (bind_err (raise_for_status response) (\<lambda>_. Inr (content response))))
       s"

definition create_build :: "transport \<Rightarrow> string \<Rightarrow> json \<Rightarrow> json action" where
  "create_build net pipeline_slug env s =
     rest_post net
       (rest_base_url (client s) @ ''/organizations/'' @ org_name (client s) @ ''/pipelines/''
        @ pipeline_slug @ ''/builds'')
       env s"

subsection \<open>Looking a build up by commit or by branch\<close>

definition get_build_url_from_commit :: "transport \<Rightarrow> string \<Rightarrow> json action" where
  "get_build_url_from_commit net commit_sha =
     bind_io (graphql_post net getBuildFromCommit_query [(''commit_sha'', JStr commit_sha)])
       (\<lambda>result.
          lift_err
            (bind_err (py_getitem result ''data'')
               (\<lambda>data. bind_err (py_path data [''pipeline'', ''builds'', ''edges''])
                  (\<lambda>edges.
                     if \<not> py_truthy edges
                     then Inl (BuildkiteNotFoundException
                                 (''No build found for commit '' @ commit_sha))
                     else bind_err
                            (py_path result [''data'', ''pipeline'', ''builds'', ''edges''])
                            (\<lambda>edges. bind_err (py_index edges 0)
                               (\<lambda>edge. py_path edge [''node'', ''url'']))))))"

definition get_build_url_from_branch :: "transport \<Rightarrow> string \<Rightarrow> json action" where
  "get_build_url_from_branch net branch =
     bind_io (graphql_post net getBuildFromBranch_query [(''branch'', JStr branch)])
       (\<lambda>result.
          lift_err
            (bind_err (py_getitem result ''data'')
               (\<lambda>data. bind_err (py_path data [''pipeline'', ''builds'', ''edges''])
                  (\<lambda>edges.
                     if \<not> py_truthy edges
                     then Inl (BuildkiteNotFoundException
                                 (''No build found for branch '' @ branch))
                     else bind_err
                            (py_path result [''data'', ''pipeline'', ''builds'', ''edges''])
                            (\<lambda>edges. bind_err (py_index edges 0)
                               (\<lambda>edge. py_path edge [''node'', ''url'']))))))"

subsection \<open>The viewer's builds\<close>

text \<open>The body of the inner loop: one \<open>Job\<close> from one job edge.\<close>

definition job_of_edge :: "json \<Rightarrow> error + json_Job" where
  "job_of_edge job_edge =
     bind_err (py_getitem job_edge ''node'')
       (\<lambda>job_node. bind_err (py_getitem job_node ''state'')
          (\<lambda>st. bind_err (py_getitem job_node ''passed'')
             (\<lambda>p. Inr \<lparr>Job.state = st, passed = p\<rparr>)))"

text \<open>A \<open>for\<close> loop that appends one record per item and stops at the first exception.\<close>

fun collect :: "('a \<Rightarrow> error + 'b) \<Rightarrow> 'a list \<Rightarrow> error + 'b list" where
  "collect f [] = Inr []"
| "collect f (x # xs) =
     bind_err (f x) (\<lambda>y. bind_err (collect f xs) (\<lambda>ys. Inr (y # ys)))"

text \<open>The body of the outer loop: the jobs first, then the \<open>Pipeline\<close>, then the
  \<open>Build\<close> with its keyword arguments in the order they are written.\<close>

definition pipeline_of_node :: "json \<Rightarrow> error + json_Pipeline" where
  "pipeline_of_node build_node =
     bind_err (py_path build_node [''pipeline'', ''name''])
       (\<lambda>n. bind_err (py_path build_node [''pipeline'', ''color''])
          (\<lambda>c. bind_err (py_path build_node [''pipeline'', ''slug''])
             (\<lambda>sl. Inr \<lparr>name = n, color = c, slug = sl\<rparr>)))"

definition build_of_node :: "json \<Rightarrow> json_Job list \<Rightarrow> json_Pipeline \<Rightarrow> error + json_Build" where
  "build_of_node build_node job_list pl =
     bind_err (py_getitem build_node ''message'')
       (\<lambda>m. bind_err (py_getitem build_node ''number'')
          (\<lambda>nr. bind_err (py_getitem build_node ''state'')
             (\<lambda>st. Inr \<lparr>number = nr, commit_message = m, pipeline = pl,
                         state = st, jobs = job_list\<rparr>)))"

definition build_of_edge :: "json \<Rightarrow> error + json_Build" where
  "build_of_edge build_edge =
     bind_err (py_getitem build_edge ''node'')
       (\<lambda>build_node.
          bind_err (py_path build_node [''jobs'', ''edges''])
            (\<lambda>job_edges. bind_err (py_iter job_edges)
               (\<lambda>job_edge_list. bind_err (collect job_of_edge job_edge_list)
                  (\<lambda>job_list. bind_err (pipeline_of_node build_node)
                     (\<lambda>pl. build_of_node build_node job_list pl)))))"

definition get_user_builds :: "transport \<Rightarrow> int \<Rightarrow> bool \<Rightarrow> (json_Build list) action" where
  "get_user_builds net limit show_finished =
     (let state_filters = (if show_finished then [] else BUILD_RUNNING_STATES);
          variables = [(''limit'', JInt limit),
                       (''state_filter'', JList (map JStr state_filters))]
      in bind_io (graphql_post net GetUserBuilds_query variables)
           (\<lambda>result.
              lift_err
                (bind_err (py_getitem result ''data'')
                   (\<lambda>data. bind_err (py_path data [''viewer'', ''user'', ''builds'', ''edges''])
                      (\<lambda>edges. bind_err (py_iter edges)
                         (\<lambda>build_edges. collect build_of_edge build_edges))))))"

subsection \<open>Calls on one instance\<close>

text \<open>The public methods with their arguments, and the session a call leaves behind.\<close>

datatype operation =
    Get_job_artifact_count string
  | Get_job_artifacts string "string option"
  | Get_build_data string int
  | Get_artifact_content string
  | Create_build string json
  | Get_build_url_from_commit string
  | Get_build_url_from_branch string
  | Get_user_builds int bool

fun call :: "re_search \<Rightarrow> transport \<Rightarrow> operation \<Rightarrow> session \<Rightarrow> session" where
  "call search net (Get_job_artifact_count job_id) s = snd (get_job_artifact_count net job_id s)"
| "call search net (Get_job_artifacts job_id regex_filter) s =
     snd (get_job_artifacts search net job_id regex_filter s)"
| "call search net (Get_build_data pipeline_slug build_id) s =
     snd (get_build_data net pipeline_slug build_id s)"
| "call search net (Get_artifact_content artifact_url) s =
     snd (get_artifact_content net artifact_url s)"
| "call search net (Create_build pipeline_slug env) s =
     snd (create_build net pipeline_slug env s)"
| "call search net (Get_build_url_from_commit commit_sha) s =
     snd (get_build_url_from_commit net commit_sha s)"
| "call search net (Get_build_url_from_branch branch) s =
     snd (get_build_url_from_branch net branch s)"
| "call search net (Get_user_builds limit show_finished) s =
     snd (get_user_builds net limit show_finished s)"

text \<open>A sequence of calls, one after the other.\<close>

fun calls :: "re_search \<Rightarrow> transport \<Rightarrow> operation list \<Rightarrow> session \<Rightarrow> session" where
  "calls search net [] s = s"
| "calls search net (operation # operations) s =
     calls search net operations (call search net operation s)"

section \<open>Notions used to state the properties\<close>

text \<open>The transport answers the request \<open>rq\<close>, sent in session \<open>s\<close>, with a response
  whose status is not an error and whose body decodes to \<open>v\<close>.\<close>

definition answers :: "transport \<Rightarrow> session \<Rightarrow> request \<Rightarrow> json \<Rightarrow> bool" where
  "answers net s rq v =
     (case net (sent s) rq of
        Inl e \<Rightarrow> False
      | Inr r \<Rightarrow> raise_for_status r = Inr () \<and> json_value r = Some v)"

text \<open>Session \<open>s'\<close> continues \<open>s\<close>: the same instance, the requests of \<open>s\<close> followed by
  further requests that all carry the headers of the instance.\<close>

definition continues :: "session \<Rightarrow> session \<Rightarrow> bool" where
  "continues s s' =
     (client s' = client s
      \<and> take (length (sent s)) (sent s') = sent s
      \<and> list_all (\<lambda>rq. request.headers rq = Buildkite.headers (client s))
           (drop (length (sent s)) (sent s')))"

text \<open>The response to the artifact query for a job whose artifacts have the download
  URLs \<open>urls\<close>, edge by edge.\<close>

definition artifact_node :: "string \<Rightarrow> json" where
  "artifact_node u = JObj [(''downloadURL'', JStr u)]"

definition artifact_edge :: "string \<Rightarrow> json" where
  "artifact_edge u = JObj [(''node'', artifact_node u)]"

definition artifacts_response :: "string list \<Rightarrow> json" where
  "artifacts_response urls =
     JObj [(''data'', JObj [(''job'', JObj [(''artifacts'',
       JObj [(''edges'', JList (map artifact_edge urls))])])])]"

text \<open>The response to a lookup by commit or branch whose edges are \<open>edges\<close>.\<close>

definition lookup_response :: "json \<Rightarrow> json" where
  "lookup_response edges =
     JObj [(''data'', JObj [(''pipeline'', JObj [(''builds'', JObj [(''edges'', edges)])])])]"

definition url_edge :: "string \<Rightarrow> json" where
  "url_edge u = JObj [(''node'', JObj [(''url'', JStr u)])]"

text \<open>
  An edge of the response to the query for the viewer's builds presents a build: under
  \<open>node\<close> it holds the fields the query selects, and their values are the values of the
  fields of the build, the job edges one by one those of its jobs.
\<close>

definition job_edge_presents :: "json \<Rightarrow> json_Job \<Rightarrow> bool" where
  "job_edge_presents je j =
     (py_path je [''node'', ''state''] = Inr (Job.state j)
      \<and> py_path je [''node'', ''passed''] = Inr (passed j))"

definition edge_presents :: "json \<Rightarrow> json_Build \<Rightarrow> bool" where
  "edge_presents e b =
     (py_path e [''node'', ''pipeline'', ''name''] = Inr (name (pipeline b))
      \<and> py_path e [''node'', ''pipeline'', ''color''] = Inr (color (pipeline b))
      \<and> py_path e [''node'', ''pipeline'', ''slug''] = Inr (slug (pipeline b))
      \<and> py_path e [''node'', ''message''] = Inr (commit_message b)
      \<and> py_path e [''node'', ''number''] = Inr (number b)
      \<and> py_path e [''node'', ''state''] = Inr (Build.state b)
      \<and> (case bind_err (py_path e [''node'', ''jobs'', ''edges'']) py_iter of
            Inl err \<Rightarrow> False
          | Inr job_edges \<Rightarrow> list_all2 job_edge_presents job_edges (jobs b)))"

text \<open>The build the client stores for a build whose fields hold values of the declared
  types: the same values, as JSON.\<close>

definition stored_job :: "(string, bool) Job \<Rightarrow> json_Job" where
  "stored_job j = \<lparr>Job.state = JStr (Job.state j), passed = JBool (passed j)\<rparr>"

definition stored :: "typed_Build \<Rightarrow> json_Build" where
  "stored b =
     \<lparr>number = JInt (number b), commit_message = JStr (commit_message b),
      pipeline = \<lparr>name = JStr (name (pipeline b)), color = JStr (color (pipeline b)),
                  slug = JStr (slug (pipeline b))\<rparr>,
      state = JStr (Build.state b), jobs = map stored_job (jobs b)\<rparr>"

text \<open>The response to the query for the viewer's builds that presents the builds \<open>bs\<close>:
  each build as an edge with the fields the query selects.\<close>

definition job_edge :: "json_Job \<Rightarrow> json" where
  "job_edge j = JObj [(''node'', JObj [(''state'', Job.state j), (''passed'', passed j)])]"

definition build_edge :: "json_Build \<Rightarrow> json" where
  "build_edge b =
     JObj [(''node'',
       JObj [(''pipeline'', JObj [(''name'', name (pipeline b)),
                                  (''color'', color (pipeline b)),
                                  (''slug'', slug (pipeline b))]),
             (''message'', commit_message b),
             (''number'', number b),
             (''state'', Build.state b),
             (''jobs'', JObj [(''edges'', JList (map job_edge (jobs b)))])])]"

definition user_builds_json :: "json list \<Rightarrow> json" where
  "user_builds_json edges =
     JObj [(''data'', JObj [(''viewer'', JObj [(''user'', JObj [(''builds'',
       JObj [(''edges'', JList edges)])])])])]"

definition user_builds_response :: "json_Build list \<Rightarrow> json" where
  "user_builds_response bs = user_builds_json (map build_edge bs)"

text \<open>A transport that answers every request with status 200 and the body \<open>v\<close>.\<close>

definition always_answer :: "json \<Rightarrow> transport" where
  "always_answer v history rq = Inr \<lparr>status_code = 200, content = [], json_value = Some v\<rparr>"

text \<open>A transport that answers the \<open>n\<close>-th request of a session with the \<open>n\<close>-th body
  of a list, and fails once the list is used up.\<close>

definition scripted :: "json list \<Rightarrow> transport" where
  "scripted vs history rq =
     (if length history < length vs
      then Inr \<lparr>status_code = 200, content = [], json_value = Some (vs ! length history)\<rparr>
      else Inl ConnectionError)"

text \<open>The response to the artifact count query for a count of \<open>n\<close>.\<close>

definition count_response :: "int \<Rightarrow> json" where
  "count_response n =
     JObj [(''data'', JObj [(''job'', JObj [(''artifacts'', JObj [(''count'', JInt n)])])])]"

text \<open>A fresh session of the client the command line builds.\<close>

definition fresh_session :: session where
  "fresh_session = \<lparr>client = Buildkite_init ''retool'' ''secret'', sent = []\<rparr>"

text \<open>
  Modelled from the spec: \<open>re.search\<close> of Python's library, which is not part of the
  repository.  The pattern is compiled (\<open>re.error\<close> when it is not a regular expression),
  the value must be a string (\<open>TypeError\<close> otherwise), and the string is scanned for a
  position where the pattern matches: a match anywhere in the string counts, not only a
  match of the whole string.  The regular expression engine itself, \<open>compile\<close> and
  \<open>match_at\<close> (does the compiled pattern match at this position of this string), is a
  parameter.
\<close>

definition re_search_of ::
  "(string \<Rightarrow> 'rx option) \<Rightarrow> ('rx \<Rightarrow> string \<Rightarrow> nat \<Rightarrow> bool) \<Rightarrow> re_search" where
  "re_search_of compile match_at pattern v =
     (case compile pattern of
        None \<Rightarrow> Inl ReError
      | Some rx \<Rightarrow>
          (case v of
             JStr s \<Rightarrow> Inr (list_ex (match_at rx s) [0..<Suc (length s)])
           | _ \<Rightarrow> Inl TypeError))"

text \<open>The engine for patterns without special characters: the pattern matches at a
  position when the string continues with the pattern there.\<close>

definition literal_compile :: "string \<Rightarrow> string option" where
  "literal_compile pattern = Some pattern"

definition literal_match_at :: "string \<Rightarrow> string \<Rightarrow> nat \<Rightarrow> bool" where
  "literal_match_at pattern s i = (take (length pattern) (drop i s) = pattern)"

definition literal_search :: re_search where
  "literal_search = re_search_of literal_compile literal_match_at"

subsection \<open>Sample builds and services\<close>

text \<open>A build of two jobs, one finished and one running, in a pipeline whose slug carries
  the organisation.\<close>

definition example_build :: typed_Build where
  "example_build =
     \<lparr>number = 42, commit_message = ''Fix the flaky test'',
      pipeline = \<lparr>name = ''My Pipeline'', color = ''#14CC80'', slug = ''retool/my-pipeline''\<rparr>,
      state = ''RUNNING'',
      jobs = [\<lparr>Job.state = ''FINISHED'', passed = True\<rparr>,
              \<lparr>Job.state = ''RUNNING'', passed = False\<rparr>]\<rparr>"


text \<open>A build whose pipeline name holds a line feed.\<close>

definition two_line_build :: typed_Build where
  "two_line_build =
     example_build\<lparr>pipeline := \<lparr>name = ''My'' @ [CHR 0x0A] @ ''Pipeline'', color = ''#14CC80'',
                                  slug = ''my-pipeline''\<rparr>\<rparr>"

text \<open>
  A build that has passed; a build as the client stores it whose pipeline has no colour
  and which has no message; and a service that answers every request with these two and
  the sample build, whatever the request asks for.
\<close>

definition finished_build :: typed_Build where
  "finished_build = example_build\<lparr>number := 41, state := ''PASSED''\<rparr>"

definition uncoloured_build :: json_Build where
  "uncoloured_build =
     \<lparr>number = JInt 43, commit_message = JNull,
      pipeline = \<lparr>name = JStr ''My Pipeline'', color = JNull, slug = JStr ''my-pipeline''\<rparr>,
      state = JStr ''BLOCKED'',
      jobs = [\<lparr>Job.state = JStr ''FINISHED'', passed = JBool True\<rparr>]\<rparr>"

definition three_builds_api :: transport where
  "three_builds_api =
     always_answer
       (user_builds_response [stored finished_build, stored example_build, uncoloured_build])"

text \<open>A service whose only build has a job that is not a command job: the fragment of
  the query selects nothing from it and its node is empty.\<close>

definition waiting_build_edge :: json where
  "waiting_build_edge =
     JObj [(''node'',
       JObj [(''pipeline'', JObj [(''name'', JStr ''My Pipeline''), (''color'', JNull),
                                  (''slug'', JStr ''my-pipeline'')]),
             (''message'', JStr ''Deploy''),
             (''number'', JInt 44),
             (''state'', JStr ''BLOCKED''),
             (''jobs'', JObj [(''edges'', JList [JObj [(''node'', JObj [])]])])])]"

definition waiting_api :: transport where
  "waiting_api = always_answer (user_builds_json [waiting_build_edge])"

text \<open>Two services for the lookups: one finds no build, one finds two.\<close>

definition no_build_api :: transport where
  "no_build_api = always_answer (lookup_response (JList []))"

definition found_api :: transport where
  "found_api =
     always_answer
       (lookup_response
          (JList [url_edge ''https://buildkite.com/retool/retool-development-dot-tests/builds/7'',
                  url_edge ''https://buildkite.com/retool/retool-development-dot-tests/builds/6'']))"

text \<open>Two services for the artifacts of a job: one counts none, one counts three and
  lists them, one of them twice.\<close>

definition no_artifacts_api :: transport where
  "no_artifacts_api = scripted [count_response 0]"

definition sample_urls :: "string list" where
  "sample_urls = [''https://example.test/a.log'', ''https://example.test/b.txt'',
                  ''https://example.test/a.log'']"

definition three_artifacts_api :: transport where
  "three_artifacts_api = scripted [count_response 3, artifacts_response sample_urls]"

section \<open>Facts about the string and number helpers\<close>

lemma rstrip_append:
  assumes "\<exists>c\<in>set ys. \<not> py_isspace c"
  shows "rstrip (xs @ ys) = xs @ rstrip ys"
proof -
  from assms obtain c where c: "c \<in> set (rev ys)" "\<not> py_isspace c" by auto
  have "dropWhile py_isspace (rev ys @ rev xs) = dropWhile py_isspace (rev ys) @ rev xs"
    using c by (rule dropWhile_append1)
  then show ?thesis by (simp add: rstrip_def)
qed

lemma rstrip_nonempty:
  assumes "\<exists>c\<in>set s. \<not> py_isspace c"
  shows "rstrip s \<noteq> []"
  using assms by (auto simp: rstrip_def dropWhile_eq_Nil_conv)

lemma rstrip_last:
  assumes "rstrip s \<noteq> []"
  shows "\<not> py_isspace (last (rstrip s))"
proof -
  have ne: "dropWhile py_isspace (rev s) \<noteq> []" using assms by (simp add: rstrip_def)
  then have "\<not> py_isspace (hd (dropWhile py_isspace (rev s)))" by (rule hd_dropWhile)
  then show ?thesis using ne by (simp add: rstrip_def last_rev)
qed

lemma set_rstrip: "set (rstrip s) \<subseteq> set s"
  by (auto simp: rstrip_def dest: set_dropWhileD)

lemma format_left_length: "length (format_left w s) = max w (length s)"
  by (simp add: format_left_def)

lemma format_right_length: "length (format_right w s) = max w (length s)"
  by (simp add: format_right_def)

lemma set_format_left: "set (format_left w s) \<subseteq> set s \<union> {CHR '' ''}"
  by (auto simp: format_left_def)

lemma set_format_right: "set (format_right w s) \<subseteq> set s \<union> {CHR '' ''}"
  by (auto simp: format_right_def)

lemma str_nat_small: "n < 10 \<Longrightarrow> str_nat n = [digit_char n]"
  by (simp add: str_nat.simps [of n])

lemma str_nat_large: "\<not> n < 10 \<Longrightarrow> str_nat n = str_nat (n div 10) @ [digit_char (n mod 10)]"
  by (simp add: str_nat.simps [of n])

lemma digit_char_not_space: "d < 10 \<Longrightarrow> \<not> py_isspace (digit_char d)"
proof -
  have "\<forall>d \<in> set [0..<10]. \<not> py_isspace (digit_char d)"
    by code_simp
  then show "d < 10 \<Longrightarrow> \<not> py_isspace (digit_char d)" by simp
qed

lemma str_nat_no_space: "c \<in> set (str_nat n) \<Longrightarrow> \<not> py_isspace c"
proof (induction n arbitrary: c rule: str_nat.induct)
  case (1 n)
  show ?case
  proof (cases "n < 10")
    case True
    with "1.prems" digit_char_not_space [of n] show ?thesis by (simp add: str_nat_small)
  next
    case False
    have "n mod 10 < 10" by simp
    then have "\<not> py_isspace (digit_char (n mod 10))" by (rule digit_char_not_space)
    with False "1.prems" "1.IH" [OF False] show ?thesis by (auto simp: str_nat_large)
  qed
qed

lemma str_nat_nonempty: "str_nat n \<noteq> []"
  by (cases "n < 10") (simp_all add: str_nat_small str_nat_large)

lemma py_isspace_newline: "py_isspace (CHR 0x0A)"
  by (simp add: py_isspace_def)

lemma py_isspace_space: "py_isspace CHR '' ''"
  by (simp add: py_isspace_def)

lemma str_int_no_newline: "CHR 0x0A \<notin> set (str_int i)"
  using str_nat_no_space [of "CHR 0x0A"] py_isspace_newline
  by (auto simp: str_int_def)

lemma str_int_nonneg: "0 \<le> i \<Longrightarrow> str_int i = str_nat (nat i)"
  by (simp add: str_int_def)








section \<open>Facts about the formatter\<close>

lemma total_jobs_pos: "jobs build \<noteq> [] \<Longrightarrow> 0 < total_jobs build"
  by (simp add: total_jobs_def)

lemma finished_jobs_bounds: "0 \<le> finished_jobs build \<and> finished_jobs build \<le> total_jobs build"
  by (simp add: finished_jobs_def total_jobs_def)

lemma percentage_bounds:
  assumes "jobs build \<noteq> []"
  shows "0 \<le> (of_int (finished_jobs build * 100) / of_int (total_jobs build) :: rat)"
    and "(of_int (finished_jobs build * 100) / of_int (total_jobs build) :: rat) \<le> of_int 100"
proof -
  have pos: "(0::rat) < of_int (total_jobs build)" using total_jobs_pos [OF assms] by simp
  have f0: "(0::rat) \<le> of_int (finished_jobs build * 100)"
    using finished_jobs_bounds [of build] by simp
  show "0 \<le> (of_int (finished_jobs build * 100) / of_int (total_jobs build) :: rat)"
    using pos f0 by simp
  have "finished_jobs build * 100 \<le> 100 * total_jobs build"
    using finished_jobs_bounds [of build] by simp
  then have "(of_int (finished_jobs build * 100) :: rat) \<le> of_int (100 * total_jobs build)"
    by (simp only: of_int_le_iff)
  then have "(of_int (finished_jobs build * 100) :: rat) \<le> of_int 100 * of_int (total_jobs build)"
    by simp
  then show "(of_int (finished_jobs build * 100) / of_int (total_jobs build) :: rat) \<le> of_int 100"
    using pos by (simp only: pos_divide_le_eq)
qed


lemma format_0f_no_space: "0 \<le> x \<Longrightarrow> c \<in> set (format_0f x) \<Longrightarrow> \<not> py_isspace c"
  by (simp add: format_0f_def str_nat_no_space)

lemma display_build_jobs:
  assumes "jobs build \<noteq> []"
  shows "display_build build =
           Inr ((format_left 50 (name (pipeline build)) @ '' ''
                 @ format_left 10 (str_int (number build)))
                @ rstrip (format_right 6
                            (format_0f (of_int (finished_jobs build * 100) / of_int (total_jobs build)))
                          @ ''% finished    ''
                          @ format_left 20 (''State: '' @ Build.state build)))"
  using total_jobs_pos [OF assms] by (simp add: display_build_def true_div_def)

lemma percent_sign_not_space: "\<not> py_isspace CHR ''%''"
  by (simp add: py_isspace_def)


lemma display_build_whole_line:
  assumes "jobs build \<noteq> []"
  shows "display_build build =
           Inr (rstrip (format_left 50 (name (pipeline build)) @ '' ''
                 @ format_left 10 (str_int (number build))
                 @ format_right 6
                     (format_0f (of_int (finished_jobs build * 100) / of_int (total_jobs build)))
                 @ ''% finished    ''
                 @ format_left 20 (''State: '' @ Build.state build)))"
proof -
  let ?second = "format_right 6
                     (format_0f (of_int (finished_jobs build * 100) / of_int (total_jobs build)))
                 @ ''% finished    ''
                 @ format_left 20 (''State: '' @ Build.state build)"
  have "CHR ''%'' \<in> set ?second" by simp
  then have "\<exists>c\<in>set ?second. \<not> py_isspace c" using percent_sign_not_space by blast
  then have "rstrip ((format_left 50 (name (pipeline build)) @ '' ''
                 @ format_left 10 (str_int (number build))) @ ?second)
           = (format_left 50 (name (pipeline build)) @ '' ''
                 @ format_left 10 (str_int (number build))) @ rstrip ?second"
    by (rule rstrip_append)
  then show ?thesis by (simp add: display_build_jobs [OF assms])
qed


lemma newline_not_in_line:
  assumes "0 \<le> x" "CHR 0x0A \<notin> set nm" "CHR 0x0A \<notin> set st"
  shows "CHR 0x0A \<notin> set (format_left 50 nm @ '' '' @ format_left 10 (str_int i)
           @ format_right 6 (format_0f x) @ ''% finished    ''
           @ format_left 20 (''State: '' @ st))"
proof -
  have a: "CHR 0x0A \<notin> set (format_left 50 nm)"
    using set_format_left [of 50 nm] assms(2) by auto
  have b: "CHR 0x0A \<notin> set (format_left 10 (str_int i))"
    using set_format_left [of 10 "str_int i"] str_int_no_newline [of i] by auto
  have "CHR 0x0A \<notin> set (format_0f x)"
    using format_0f_no_space [OF assms(1), of "CHR 0x0A"] py_isspace_newline by blast
  then have c: "CHR 0x0A \<notin> set (format_right 6 (format_0f x))"
    using set_format_right [of 6 "format_0f x"] by auto
  have "CHR 0x0A \<notin> set (''State: '' @ st)" using assms(3) by simp
  then have d: "CHR 0x0A \<notin> set (format_left 20 (''State: '' @ st))"
    using set_format_left [of 20 "''State: '' @ st"] by auto
  have e: "CHR 0x0A \<notin> set ''% finished    ''" "CHR 0x0A \<notin> set '' ''" by simp_all
  from a b c d e show ?thesis by (simp only: set_append Un_iff) blast
qed




section \<open>Facts about the client\<close>

lemma bind_err_Inr [simp]: "bind_err (Inr x) f = f x"
  by (simp add: bind_err_def)

lemma bind_err_Inl [simp]: "bind_err (Inl e) f = Inl e"
  by (simp add: bind_err_def)

lemma bind_err_eq_Inr:
  "bind_err m f = Inr y \<longleftrightarrow> (\<exists>x. m = Inr x \<and> f x = Inr y)"
  by (cases m) simp_all

lemma graphql_post_eq:
  "graphql_post net query variables s =
     (bind_err (case net (sent s) (graphql_request (client s) query variables) of
                  Inl failure \<Rightarrow> Inl (RequestException failure) | Inr r \<Rightarrow> Inr r)
        (\<lambda>r. bind_err (raise_for_status r) (\<lambda>_. response_json r)),
      s\<lparr>sent := sent s @ [graphql_request (client s) query variables]\<rparr>)"
  by (simp add: graphql_post_def bind_io_def send_def lift_err_def split: sum.split)

lemma graphql_post_answers:
  assumes "answers net s (graphql_request (client s) query variables) v"
  shows "graphql_post net query variables s =
           (Inr v, s\<lparr>sent := sent s @ [graphql_request (client s) query variables]\<rparr>)"
  using assms
  by (auto simp: graphql_post_eq answers_def response_json_def split: sum.splits)

lemma graphql_post_Inr:
  assumes "fst (graphql_post net query variables s) = Inr v"
  shows "answers net s (graphql_request (client s) query variables) v"
  using assms
  by (auto simp: graphql_post_eq answers_def response_json_def bind_err_eq_Inr
      split: sum.splits option.splits)

lemma bind_io_eq:
  "bind_io m f s = (case fst (m s) of Inl e \<Rightarrow> (Inl e, snd (m s)) | Inr x \<Rightarrow> f x (snd (m s)))"
  by (simp add: bind_io_def split: prod.split sum.split)

lemma continues_refl: "continues s s"
  by (simp add: continues_def)

lemma continues_iff:
  "continues s s' \<longleftrightarrow>
     client s' = client s
     \<and> (\<exists>new. sent s' = sent s @ new
            \<and> list_all (\<lambda>rq. request.headers rq = Buildkite.headers (client s)) new)"
proof
  assume c: "continues s s'"
  have "sent s' = take (length (sent s)) (sent s') @ drop (length (sent s)) (sent s')"
    by simp
  also have "\<dots> = sent s @ drop (length (sent s)) (sent s')"
    using c by (simp add: continues_def)
  finally have "sent s' = sent s @ drop (length (sent s)) (sent s')" .
  moreover have "list_all (\<lambda>rq. request.headers rq = Buildkite.headers (client s))
                   (drop (length (sent s)) (sent s'))"
    using c by (simp add: continues_def)
  ultimately show "client s' = client s
     \<and> (\<exists>new. sent s' = sent s @ new
            \<and> list_all (\<lambda>rq. request.headers rq = Buildkite.headers (client s)) new)"
    using c by (auto simp: continues_def)
next
  assume "client s' = client s
     \<and> (\<exists>new. sent s' = sent s @ new
            \<and> list_all (\<lambda>rq. request.headers rq = Buildkite.headers (client s)) new)"
  then show "continues s s'" by (auto simp: continues_def)
qed

lemma continues_trans:
  assumes "continues s s'" "continues s' s''"
  shows "continues s s''"
proof -
  from assms(1) obtain new where new: "sent s' = sent s @ new"
    and c1: "client s' = client s"
    and h1: "list_all (\<lambda>rq. request.headers rq = Buildkite.headers (client s)) new"
    unfolding continues_iff by blast
  from assms(2) obtain new' where new': "sent s'' = sent s' @ new'"
    and c2: "client s'' = client s'"
    and h2: "list_all (\<lambda>rq. request.headers rq = Buildkite.headers (client s')) new'"
    unfolding continues_iff by blast
  have "sent s'' = sent s @ (new @ new')" using new new' by simp
  moreover have "list_all (\<lambda>rq. request.headers rq = Buildkite.headers (client s)) (new @ new')"
    using h1 h2 c1 by simp
  ultimately show ?thesis using c1 c2 unfolding continues_iff by metis
qed

lemma continues_send:
  assumes "request.headers rq = Buildkite.headers (client s)"
  shows "continues s (snd (send net rq s))"
  using assms by (simp add: send_def continues_def)

lemma continues_lift: "continues s (snd (lift_err r s))"
  by (simp add: lift_err_def continues_refl)

lemma continues_bind:
  assumes "continues s (snd (m s))"
    and "\<And>x s'. continues s' (snd (f x s'))"
  shows "continues s (snd (bind_io m f s))"
proof (cases "fst (m s)")
  case (Inl e)
  then show ?thesis using assms(1) by (simp add: bind_io_eq)
next
  case (Inr x)
  then have "snd (bind_io m f s) = snd (f x (snd (m s)))" by (simp add: bind_io_eq)
  then show ?thesis using continues_trans [OF assms(1) assms(2) [of "snd (m s)" x]] by simp
qed

lemma continues_graphql_post: "continues s (snd (graphql_post net query variables s))"
  by (simp add: graphql_post_eq continues_def graphql_request_def)

lemma continues_rest_post: "continues s (snd (rest_post net u body s))"
  unfolding rest_post_def
  by (intro continues_bind continues_send continues_lift) simp

lemma continues_rest_get: "continues s (snd (rest_get net u s))"
  unfolding rest_get_def
  by (intro continues_bind continues_send continues_lift) simp

lemma continues_get_job_artifact_count:
  "continues s (snd (get_job_artifact_count net job_id s))"
  unfolding get_job_artifact_count_def
  by (intro continues_bind continues_graphql_post continues_lift)

lemma continues_get_job_artifacts:
  "continues s (snd (get_job_artifacts search net job_id regex_filter s))"
  unfolding get_job_artifacts_def
proof (rule continues_bind [OF continues_get_job_artifact_count])
  fix x s'
  show "continues s'
          (snd ((if py_eq_int x 0 then lift_err (Inr [])
                 else bind_io
                        (graphql_post net getJobArtfacts_query
                           [(''job_id'', JStr job_id), (''artifact_count'', x)])
                        (\<lambda>result.
                           lift_err
                             (bind_err (py_path result [''data'', ''job'', ''artifacts'', ''edges''])
                                (\<lambda>edges. bind_err (py_iter edges)
                                   (\<lambda>es. artifact_nodes search regex_filter es))))) s'))"
    by (cases "py_eq_int x 0")
       (simp_all add: continues_lift continues_bind continues_graphql_post)
qed

lemma continues_get_build_data:
  "continues s (snd (get_build_data net pipeline_slug build_id s))"
  unfolding get_build_data_def by (rule continues_rest_get)

lemma continues_get_artifact_content:
  "continues s (snd (get_artifact_content net artifact_url s))"
  unfolding get_artifact_content_def
  by (intro continues_bind continues_send continues_lift) simp

lemma continues_create_build:
  "continues s (snd (create_build net pipeline_slug env s))"
  unfolding create_build_def by (rule continues_rest_post)

lemma continues_get_build_url_from_commit:
  "continues s (snd (get_build_url_from_commit net commit_sha s))"
  unfolding get_build_url_from_commit_def
  by (intro continues_bind continues_graphql_post continues_lift)

lemma continues_get_build_url_from_branch:
  "continues s (snd (get_build_url_from_branch net branch s))"
  unfolding get_build_url_from_branch_def
  by (intro continues_bind continues_graphql_post continues_lift)

lemma continues_get_user_builds:
  "continues s (snd (get_user_builds net limit show_finished s))"
  unfolding get_user_builds_def Let_def
  by (intro continues_bind continues_graphql_post continues_lift)

lemma continues_call: "continues s (call search net operation s)"
  by (cases operation)
     (simp_all add: continues_get_job_artifact_count continues_get_job_artifacts
        continues_get_build_data continues_get_artifact_content continues_create_build
        continues_get_build_url_from_commit continues_get_build_url_from_branch
        continues_get_user_builds)

lemma continues_calls: "continues s (calls search net operations s)"
proof (induction operations arbitrary: s)
  case Nil
  show ?case by (simp add: continues_refl)
next
  case (Cons operation operations)
  have "continues s (call search net operation s)" by (rule continues_call)
  moreover have "continues (call search net operation s)
                   (calls search net operations (call search net operation s))"
    by (rule Cons.IH)
  ultimately show ?case by (simp add: continues_trans)
qed

lemma get_job_artifact_count_eq:
  "get_job_artifact_count net job_id s =
     (bind_err (fst (graphql_post net getJobArtifactCount_query [(''job_id'', JStr job_id)] s))
        (\<lambda>result. py_path result [''data'', ''job'', ''artifacts'', ''count'']),
      s\<lparr>sent := sent s
               @ [graphql_request (client s) getJobArtifactCount_query [(''job_id'', JStr job_id)]]\<rparr>)"
  by (simp add: get_job_artifact_count_def bind_io_eq graphql_post_eq lift_err_def
      split: sum.split)

lemma get_job_artifacts_zero:
  assumes "fst (get_job_artifact_count net job_id s) = Inr count" "py_eq_int count 0"
  shows "get_job_artifacts search net job_id regex_filter s =
           (Inr [], s\<lparr>sent := sent s
               @ [graphql_request (client s) getJobArtifactCount_query [(''job_id'', JStr job_id)]]\<rparr>)"
proof -
  have "snd (get_job_artifact_count net job_id s) =
          s\<lparr>sent := sent s
               @ [graphql_request (client s) getJobArtifactCount_query [(''job_id'', JStr job_id)]]\<rparr>"
    by (simp add: get_job_artifact_count_eq)
  with assms show ?thesis
    by (simp add: get_job_artifacts_def bind_io_eq lift_err_def)
qed

lemma get_job_artifacts_nonzero:
  assumes "fst (get_job_artifact_count net job_id s) = Inr count" "\<not> py_eq_int count 0"
  shows "get_job_artifacts search net job_id regex_filter s =
           (bind_err
              (fst (graphql_post net getJobArtfacts_query
                      [(''job_id'', JStr job_id), (''artifact_count'', count)]
                      (s\<lparr>sent := sent s
                           @ [graphql_request (client s) getJobArtifactCount_query
                                [(''job_id'', JStr job_id)]]\<rparr>)))
              (\<lambda>result.
                 bind_err (py_path result [''data'', ''job'', ''artifacts'', ''edges''])
                   (\<lambda>edges. bind_err (py_iter edges)
                      (\<lambda>es. artifact_nodes search regex_filter es))),
            s\<lparr>sent := sent s
               @ [graphql_request (client s) getJobArtifactCount_query [(''job_id'', JStr job_id)],
                  graphql_request (client s) getJobArtfacts_query
                    [(''job_id'', JStr job_id), (''artifact_count'', count)]]\<rparr>)"
proof -
  have "snd (get_job_artifact_count net job_id s) =
          s\<lparr>sent := sent s
               @ [graphql_request (client s) getJobArtifactCount_query [(''job_id'', JStr job_id)]]\<rparr>"
    by (simp add: get_job_artifact_count_eq)
  with assms show ?thesis
    by (simp add: get_job_artifacts_def bind_io_eq [of "get_job_artifact_count net job_id"]
          bind_io_eq [of "graphql_post net getJobArtfacts_query
                      [(''job_id'', JStr job_id), (''artifact_count'', count)]"]
          graphql_post_eq lift_err_def split: sum.split)
qed


lemma py_getitem_not_found: "py_getitem v key \<noteq> Inl (BuildkiteNotFoundException m)"
  by (cases v) (simp_all split: option.split)

lemma py_path_not_found: "py_path v keys \<noteq> Inl (BuildkiteNotFoundException m)"
proof (induction keys arbitrary: v)
  case Nil
  show ?case by simp
next
  case (Cons key keys)
  show ?case
  proof (cases "py_getitem v key")
    case (Inl e)
    then show ?thesis using py_getitem_not_found [of v key m] by simp
  next
    case (Inr w)
    then show ?thesis using Cons.IH [of w] by simp
  qed
qed

lemma py_index_not_found: "py_index v i \<noteq> Inl (BuildkiteNotFoundException m)"
  by (cases v) (simp_all add: Let_def)

lemma graphql_post_not_found:
  "fst (graphql_post net query variables s) \<noteq> Inl (BuildkiteNotFoundException m)"
  by (auto simp: graphql_post_eq raise_for_status_def response_json_def
      split: sum.splits option.splits if_splits)

lemma graphql_post_cases:
  "(\<exists>v. fst (graphql_post net query variables s) = Inr v
         \<and> answers net s (graphql_request (client s) query variables) v)
   \<or> (\<exists>e. fst (graphql_post net query variables s) = Inl e)"
  using graphql_post_Inr [of net query variables s]
  by (cases "fst (graphql_post net query variables s)") auto

text \<open>What remains of a lookup once the response has arrived.\<close>

lemma get_build_url_from_commit_answers:
  assumes "answers net s
             (graphql_request (client s) getBuildFromCommit_query [(''commit_sha'', JStr v)]) result"
  shows "fst (get_build_url_from_commit net v s) =
           bind_err (py_path result [''data'', ''pipeline'', ''builds'', ''edges''])
             (\<lambda>edges.
                if \<not> py_truthy edges
                then Inl (BuildkiteNotFoundException (''No build found for commit '' @ v))
                else bind_err (py_index edges 0) (\<lambda>edge. py_path edge [''node'', ''url'']))"
proof -
  have "fst (get_build_url_from_commit net v s) =
          bind_err (py_getitem result ''data'')
               (\<lambda>data. bind_err (py_path data [''pipeline'', ''builds'', ''edges''])
                  (\<lambda>edges.
                     if \<not> py_truthy edges
                     then Inl (BuildkiteNotFoundException
                                 (''No build found for commit '' @ v))
                     else bind_err
                            (py_path result [''data'', ''pipeline'', ''builds'', ''edges''])
                            (\<lambda>edges. bind_err (py_index edges 0)
                               (\<lambda>edge. py_path edge [''node'', ''url'']))))"
    by (simp add: get_build_url_from_commit_def bind_io_eq
          graphql_post_answers [OF assms] lift_err_def)
  also have "\<dots> = bind_err (py_path result [''data'', ''pipeline'', ''builds'', ''edges''])
             (\<lambda>edges.
                if \<not> py_truthy edges
                then Inl (BuildkiteNotFoundException (''No build found for commit '' @ v))
                else bind_err (py_index edges 0) (\<lambda>edge. py_path edge [''node'', ''url'']))"
    by (cases "py_getitem result ''data''"; simp)
       (auto simp: bind_err_def split: sum.splits)
  finally show ?thesis .
qed

lemma get_build_url_from_branch_answers:
  assumes "answers net s
             (graphql_request (client s) getBuildFromBranch_query [(''branch'', JStr v)]) result"
  shows "fst (get_build_url_from_branch net v s) =
           bind_err (py_path result [''data'', ''pipeline'', ''builds'', ''edges''])
             (\<lambda>edges.
                if \<not> py_truthy edges
                then Inl (BuildkiteNotFoundException (''No build found for branch '' @ v))
                else bind_err (py_index edges 0) (\<lambda>edge. py_path edge [''node'', ''url'']))"
proof -
  have "fst (get_build_url_from_branch net v s) =
          bind_err (py_getitem result ''data'')
               (\<lambda>data. bind_err (py_path data [''pipeline'', ''builds'', ''edges''])
                  (\<lambda>edges.
                     if \<not> py_truthy edges
                     then Inl (BuildkiteNotFoundException
                                 (''No build found for branch '' @ v))
                     else bind_err
                            (py_path result [''data'', ''pipeline'', ''builds'', ''edges''])
                            (\<lambda>edges. bind_err (py_index edges 0)
                               (\<lambda>edge. py_path edge [''node'', ''url'']))))"
    by (simp add: get_build_url_from_branch_def bind_io_eq
          graphql_post_answers [OF assms] lift_err_def)
  also have "\<dots> = bind_err (py_path result [''data'', ''pipeline'', ''builds'', ''edges''])
             (\<lambda>edges.
                if \<not> py_truthy edges
                then Inl (BuildkiteNotFoundException (''No build found for branch '' @ v))
                else bind_err (py_index edges 0) (\<lambda>edge. py_path edge [''node'', ''url'']))"
    by (cases "py_getitem result ''data''"; simp)
       (auto simp: bind_err_def split: sum.splits)
  finally show ?thesis .
qed

text \<open>The decision on a response, shared by the two lookups.\<close>

lemma lookup_decision_list:
  assumes "py_path result [''data'', ''pipeline'', ''builds'', ''edges''] = Inr (JList edges)"
  shows "bind_err (py_path result [''data'', ''pipeline'', ''builds'', ''edges''])
             (\<lambda>edges.
                if \<not> py_truthy edges
                then Inl (BuildkiteNotFoundException msg)
                else bind_err (py_index edges 0) (\<lambda>edge. py_path edge [''node'', ''url'']))
         = (case edges of
              [] \<Rightarrow> Inl (BuildkiteNotFoundException msg)
            | edge # rest \<Rightarrow> py_path edge [''node'', ''url''])"
  using assms by (cases edges) simp_all

lemma lookup_decision_not_found:
  assumes "bind_err (py_path result [''data'', ''pipeline'', ''builds'', ''edges''])
             (\<lambda>edges.
                if \<not> py_truthy edges
                then Inl (BuildkiteNotFoundException msg)
                else bind_err (py_index edges 0) (\<lambda>edge. py_path edge [''node'', ''url'']))
           = Inl (BuildkiteNotFoundException m)"
  shows "m = msg \<and> (\<exists>edges. py_path result [''data'', ''pipeline'', ''builds'', ''edges'']
                              = Inr edges \<and> \<not> py_truthy edges)"
proof (cases "py_path result [''data'', ''pipeline'', ''builds'', ''edges'']")
  case (Inl e)
  with assms py_path_not_found [of result "[''data'', ''pipeline'', ''builds'', ''edges'']" m]
  show ?thesis by simp
next
  case (Inr edges)
  show ?thesis
  proof (cases "py_truthy edges")
    case True
    with Inr assms have i: "bind_err (py_index edges 0) (\<lambda>edge. py_path edge [''node'', ''url''])
                          = Inl (BuildkiteNotFoundException m)"
      by simp
    show ?thesis
    proof (cases "py_index edges 0")
      case (Inl e)
      with i py_index_not_found [of edges 0 m] show ?thesis by simp
    next
      case (Inr edge)
      with i py_path_not_found [of edge "[''node'', ''url'']" m] show ?thesis by simp
    qed
  next
    case False
    with Inr assms show ?thesis by simp
  qed
qed

lemma get_build_url_from_commit_failed:
  assumes "fst (graphql_post net getBuildFromCommit_query [(''commit_sha'', JStr v)] s) = Inl e"
  shows "fst (get_build_url_from_commit net v s) = Inl e"
  using assms by (simp add: get_build_url_from_commit_def bind_io_eq)

lemma get_build_url_from_branch_failed:
  assumes "fst (graphql_post net getBuildFromBranch_query [(''branch'', JStr v)] s) = Inl e"
  shows "fst (get_build_url_from_branch net v s) = Inl e"
  using assms by (simp add: get_build_url_from_branch_def bind_io_eq)

lemma first_edge_not_found:
  "(case edges of [] \<Rightarrow> Inl (BuildkiteNotFoundException msg)
    | edge # rest \<Rightarrow> py_path edge [''node'', ''url'']) = Inl (BuildkiteNotFoundException m)
   \<longleftrightarrow> edges = [] \<and> m = msg"
proof (cases edges)
  case Nil
  then show ?thesis by auto
next
  case (Cons edge rest)
  then show ?thesis
    using py_path_not_found [of edge "[''node'', ''url'']" m]
    by (simp del: py_path.simps)
qed

lemma commit_not_found_only_if:
  assumes "fst (get_build_url_from_commit net v s) = Inl (BuildkiteNotFoundException m)"
  shows "m = ''No build found for commit '' @ v
         \<and> (\<exists>result edges.
               answers net s
                 (graphql_request (client s) getBuildFromCommit_query [(''commit_sha'', JStr v)])
                 result
               \<and> py_path result [''data'', ''pipeline'', ''builds'', ''edges''] = Inr edges
               \<and> \<not> py_truthy edges)"
proof -
  from graphql_post_cases [of net getBuildFromCommit_query "[(''commit_sha'', JStr v)]" s]
  show ?thesis
  proof
    assume "\<exists>result. fst (graphql_post net getBuildFromCommit_query [(''commit_sha'', JStr v)] s)
                       = Inr result
              \<and> answers net s
                   (graphql_request (client s) getBuildFromCommit_query [(''commit_sha'', JStr v)])
                   result"
    then obtain result where a: "answers net s
                   (graphql_request (client s) getBuildFromCommit_query [(''commit_sha'', JStr v)])
                   result"
      by blast
    from assms have "bind_err (py_path result [''data'', ''pipeline'', ''builds'', ''edges''])
             (\<lambda>edges.
                if \<not> py_truthy edges
                then Inl (BuildkiteNotFoundException (''No build found for commit '' @ v))
                else bind_err (py_index edges 0) (\<lambda>edge. py_path edge [''node'', ''url'']))
           = Inl (BuildkiteNotFoundException m)"
      by (simp only: get_build_url_from_commit_answers [OF a])
    from lookup_decision_not_found [OF this] a show ?thesis by blast
  next
    assume "\<exists>e. fst (graphql_post net getBuildFromCommit_query [(''commit_sha'', JStr v)] s) = Inl e"
    then obtain e
      where e: "fst (graphql_post net getBuildFromCommit_query [(''commit_sha'', JStr v)] s) = Inl e"
      by blast
    from get_build_url_from_commit_failed [OF e] assms
    have "e = BuildkiteNotFoundException m" by simp
    with e graphql_post_not_found show ?thesis by blast
  qed
qed

lemma branch_not_found_only_if:
  assumes "fst (get_build_url_from_branch net v s) = Inl (BuildkiteNotFoundException m)"
  shows "m = ''No build found for branch '' @ v
         \<and> (\<exists>result edges.
               answers net s
                 (graphql_request (client s) getBuildFromBranch_query [(''branch'', JStr v)])
                 result
               \<and> py_path result [''data'', ''pipeline'', ''builds'', ''edges''] = Inr edges
               \<and> \<not> py_truthy edges)"
proof -
  from graphql_post_cases [of net getBuildFromBranch_query "[(''branch'', JStr v)]" s]
  show ?thesis
  proof
    assume "\<exists>result. fst (graphql_post net getBuildFromBranch_query [(''branch'', JStr v)] s)
                       = Inr result
              \<and> answers net s
                   (graphql_request (client s) getBuildFromBranch_query [(''branch'', JStr v)])
                   result"
    then obtain result where a: "answers net s
                   (graphql_request (client s) getBuildFromBranch_query [(''branch'', JStr v)])
                   result"
      by blast
    from assms have "bind_err (py_path result [''data'', ''pipeline'', ''builds'', ''edges''])
             (\<lambda>edges.
                if \<not> py_truthy edges
                then Inl (BuildkiteNotFoundException (''No build found for branch '' @ v))
                else bind_err (py_index edges 0) (\<lambda>edge. py_path edge [''node'', ''url'']))
           = Inl (BuildkiteNotFoundException m)"
      by (simp only: get_build_url_from_branch_answers [OF a])
    from lookup_decision_not_found [OF this] a show ?thesis by blast
  next
    assume "\<exists>e. fst (graphql_post net getBuildFromBranch_query [(''branch'', JStr v)] s) = Inl e"
    then obtain e
      where e: "fst (graphql_post net getBuildFromBranch_query [(''branch'', JStr v)] s) = Inl e"
      by blast
    from get_build_url_from_branch_failed [OF e] assms
    have "e = BuildkiteNotFoundException m" by simp
    with e graphql_post_not_found show ?thesis by blast
  qed
qed


lemma artifact_edge_node: "py_getitem (artifact_edge u) ''node'' = Inr (artifact_node u)"
  by (simp add: artifact_edge_def)

lemma artifact_edge_url: "py_path (artifact_edge u) [''node'', ''downloadURL''] = Inr (JStr u)"
  by (simp add: artifact_edge_def artifact_node_def)

lemma artifact_nodes_no_filter:
  "artifact_nodes search None (map artifact_edge urls) = Inr (map artifact_node urls)"
  by (induction urls) (simp_all add: artifact_edge_node)

lemma artifact_nodes_filter:
  assumes "\<forall>u\<in>set urls. search pattern (JStr u) = Inr (matches u)"
  shows "artifact_nodes search (Some pattern) (map artifact_edge urls)
         = Inr (map artifact_node (filter matches urls))"
  using assms
proof (induction urls)
  case Nil
  show ?case by simp
next
  case (Cons u urls)
  then have ih: "artifact_nodes search (Some pattern) (map artifact_edge urls)
                 = Inr (map artifact_node (filter matches urls))"
    and u: "search pattern (JStr u) = Inr (matches u)"
    by simp_all
  show ?case
    by (simp add: artifact_edge_url artifact_edge_node ih u del: py_path.simps)
qed

lemma artifacts_response_edges:
  "py_path (artifacts_response urls) [''data'', ''job'', ''artifacts'', ''edges'']
   = Inr (JList (map artifact_edge urls))"
  by (simp add: artifacts_response_def)

lemma get_job_artifacts_page:
  assumes "fst (get_job_artifact_count net job_id s) = Inr count" "\<not> py_eq_int count 0"
    and "answers net
           (s\<lparr>sent := sent s
                @ [graphql_request (client s) getJobArtifactCount_query
                     [(''job_id'', JStr job_id)]]\<rparr>)
           (graphql_request (client s) getJobArtfacts_query
              [(''job_id'', JStr job_id), (''artifact_count'', count)])
           (artifacts_response urls)"
  shows "fst (get_job_artifacts search net job_id regex_filter s)
         = artifact_nodes search regex_filter (map artifact_edge urls)"
proof -
  let ?s1 = "s\<lparr>sent := sent s
                @ [graphql_request (client s) getJobArtifactCount_query
                     [(''job_id'', JStr job_id)]]\<rparr>"
  have c: "client ?s1 = client s" by simp
  have "fst (graphql_post net getJobArtfacts_query
               [(''job_id'', JStr job_id), (''artifact_count'', count)] ?s1)
        = Inr (artifacts_response urls)"
    using graphql_post_answers [of net ?s1 getJobArtfacts_query
             "[(''job_id'', JStr job_id), (''artifact_count'', count)]" "artifacts_response urls"]
      assms(3)
    by (simp only: c fst_conv)
  then show ?thesis
    by (simp only: get_job_artifacts_nonzero [OF assms(1,2)] fst_conv bind_err_Inr
          artifacts_response_edges py_iter.simps)
qed

lemma list_ex_upt_Suc: "list_ex P [0..<Suc n] \<longleftrightarrow> (\<exists>i\<le>n. P i)"
proof
  assume "list_ex P [0..<Suc n]"
  then obtain i where "i \<in> set [0..<Suc n]" "P i"
    unfolding list_ex_iff by blast
  then have "i \<le> n" "P i" by auto
  then show "\<exists>i\<le>n. P i" by blast
next
  assume "\<exists>i\<le>n. P i"
  then obtain i where "i \<le> n" "P i" by blast
  then have "i \<in> set [0..<Suc n]" by auto
  with \<open>P i\<close> show "list_ex P [0..<Suc n]"
    unfolding list_ex_iff by blast
qed

lemma re_search_of_compiled:
  assumes "compile pattern = Some rx"
  shows "re_search_of compile match_at pattern (JStr u)
         = Inr (\<exists>i\<le>length u. match_at rx u i)"
  using assms by (simp add: re_search_of_def list_ex_upt_Suc del: upt_Suc)


lemma job_of_edge_job_edge: "job_of_edge (job_edge j) = Inr j"
  by (simp add: job_of_edge_def job_edge_def)

lemma collect_map:
  assumes "\<And>x. f (g x) = Inr x"
  shows "collect f (map g xs) = Inr xs"
  by (induction xs) (simp_all add: assms)

lemma build_of_edge_build_edge: "build_of_edge (build_edge b) = Inr b"
proof -
  have j: "collect job_of_edge (map job_edge (jobs b)) = Inr (jobs b)"
    by (rule collect_map) (rule job_of_edge_job_edge)
  show ?thesis
    by (simp add: build_of_edge_def build_edge_def pipeline_of_node_def build_of_node_def j)
qed

lemma user_builds_response_edges:
  "py_getitem (user_builds_response bs) ''data'' = Inr d
   \<Longrightarrow> py_path d [''viewer'', ''user'', ''builds'', ''edges''] = Inr (JList (map build_edge bs))"
  by (auto simp: user_builds_response_def user_builds_json_def)

lemma user_builds_response_data:
  "\<exists>d. py_getitem (user_builds_response bs) ''data'' = Inr d"
  by (simp add: user_builds_response_def user_builds_json_def)

lemma get_user_builds_session:
  "snd (get_user_builds net limit show_finished s) =
     s\<lparr>sent := sent s
          @ [graphql_request (client s) GetUserBuilds_query
               [(''limit'', JInt limit),
                (''state_filter'',
                 JList (map JStr (if show_finished then [] else BUILD_RUNNING_STATES)))]]\<rparr>"
  by (simp add: get_user_builds_def Let_def bind_io_eq graphql_post_eq lift_err_def
      split: sum.split)

lemma get_user_builds_answers:
  assumes "answers net s
             (graphql_request (client s) GetUserBuilds_query
                [(''limit'', JInt limit),
                 (''state_filter'',
                  JList (map JStr (if show_finished then [] else BUILD_RUNNING_STATES)))])
             (user_builds_response bs)"
  shows "fst (get_user_builds net limit show_finished s) = Inr bs"
proof -
  have c: "collect build_of_edge (map build_edge bs) = Inr bs"
    by (rule collect_map) (rule build_of_edge_build_edge)
  obtain d where d: "py_getitem (user_builds_response bs) ''data'' = Inr d"
    using user_builds_response_data by blast
  note e = user_builds_response_edges [OF d]
  show ?thesis
    by (simp add: get_user_builds_def Let_def bind_io_eq graphql_post_answers [OF assms]
          lift_err_def d e c del: py_path.simps)
qed


lemma always_answer_answers: "answers (always_answer v) s rq v"
  by (simp add: answers_def always_answer_def raise_for_status_def)


lemma scripted_answers:
  assumes "length (sent s) < length vs"
  shows "answers (scripted vs) s rq (vs ! length (sent s))"
  using assms by (simp add: answers_def scripted_def raise_for_status_def)

lemma get_job_artifact_count_answers:
  assumes "answers net s
             (graphql_request (client s) getJobArtifactCount_query [(''job_id'', JStr job_id)])
             (count_response n)"
  shows "fst (get_job_artifact_count net job_id s) = Inr (JInt n)"
  by (simp add: get_job_artifact_count_eq graphql_post_answers [OF assms] count_response_def)

lemma no_artifacts_count:
  "fst (get_job_artifact_count no_artifacts_api ''job-1'' fresh_session) = Inr (JInt 0)"
proof -
  have "answers (scripted [count_response 0]) fresh_session
          (graphql_request (client fresh_session) getJobArtifactCount_query
             [(''job_id'', JStr ''job-1'')])
          ([count_response 0] ! length (sent fresh_session))"
    by (rule scripted_answers) (simp add: fresh_session_def)
  then have "answers no_artifacts_api fresh_session
          (graphql_request (client fresh_session) getJobArtifactCount_query
             [(''job_id'', JStr ''job-1'')])
          (count_response 0)"
    by (simp add: no_artifacts_api_def fresh_session_def)
  then show ?thesis by (rule get_job_artifact_count_answers)
qed

lemma three_artifacts_count:
  "fst (get_job_artifact_count three_artifacts_api ''job-1'' fresh_session) = Inr (JInt 3)"
proof -
  have "answers (scripted [count_response 3, artifacts_response sample_urls]) fresh_session
          (graphql_request (client fresh_session) getJobArtifactCount_query
             [(''job_id'', JStr ''job-1'')])
          ([count_response 3, artifacts_response sample_urls] ! length (sent fresh_session))"
    by (rule scripted_answers) (simp add: fresh_session_def)
  then have "answers three_artifacts_api fresh_session
          (graphql_request (client fresh_session) getJobArtifactCount_query
             [(''job_id'', JStr ''job-1'')])
          (count_response 3)"
    by (simp add: three_artifacts_api_def fresh_session_def)
  then show ?thesis by (rule get_job_artifact_count_answers)
qed

lemma three_artifacts_page:
  "answers three_artifacts_api
     (fresh_session\<lparr>sent := sent fresh_session
          @ [graphql_request (client fresh_session) getJobArtifactCount_query
               [(''job_id'', JStr ''job-1'')]]\<rparr>)
     (graphql_request (client fresh_session) getJobArtfacts_query
        [(''job_id'', JStr ''job-1''), (''artifact_count'', JInt 3)])
     (artifacts_response sample_urls)"
proof -
  let ?s1 = "fresh_session\<lparr>sent := sent fresh_session
          @ [graphql_request (client fresh_session) getJobArtifactCount_query
               [(''job_id'', JStr ''job-1'')]]\<rparr>"
  have l: "length (sent ?s1) = 1" by (simp add: fresh_session_def)
  have "answers (scripted [count_response 3, artifacts_response sample_urls]) ?s1
          (graphql_request (client fresh_session) getJobArtfacts_query
             [(''job_id'', JStr ''job-1''), (''artifact_count'', JInt 3)])
          ([count_response 3, artifacts_response sample_urls] ! length (sent ?s1))"
    by (rule scripted_answers) (simp add: fresh_session_def)
  then show ?thesis unfolding l by (simp add: three_artifacts_api_def)
qed


lemma collect_iff: "collect f xs = Inr ys \<longleftrightarrow> list_all2 (\<lambda>x y. f x = Inr y) xs ys"
proof (induction xs arbitrary: ys)
  case Nil
  show ?case by auto
next
  case (Cons x xs)
  show ?case
  proof (cases ys)
    case Nil
    then show ?thesis by (auto simp: bind_err_eq_Inr)
  next
    case (Cons y ys')
    then show ?thesis using Cons.IH [of ys'] by (auto simp: bind_err_eq_Inr)
  qed
qed

lemma list_all2_choice:
  assumes "\<forall>x\<in>set xs. \<exists>y. P x y"
  shows "\<exists>ys. list_all2 P xs ys"
  using assms
proof (induction xs)
  case Nil
  show ?case by simp
next
  case (Cons x xs)
  then obtain y ys where "P x y" "list_all2 P xs ys" by auto
  then have "list_all2 P (x # xs) (y # ys)" by simp
  then show ?case by blast
qed

lemma py_path_node:
  "py_path e (''node'' # keys) = bind_err (py_getitem e ''node'') (\<lambda>n. py_path n keys)"
  by simp

lemma py_path_single: "py_path v [key] = py_getitem v key"
  by (cases "py_getitem v key") simp_all

lemma job_of_edge_iff: "job_of_edge je = Inr j \<longleftrightarrow> job_edge_presents je j"
proof (cases "py_getitem je ''node''")
  case (Inl e)
  then show ?thesis by (simp add: job_of_edge_def job_edge_presents_def)
next
  case (Inr n)
  then show ?thesis
    by (cases j) (auto simp: job_of_edge_def job_edge_presents_def bind_err_eq_Inr)
qed

lemma collect_job_of_edge:
  "collect job_of_edge jes = Inr js \<longleftrightarrow> list_all2 job_edge_presents jes js"
  by (simp add: collect_iff job_of_edge_iff)

lemma pipeline_of_node_iff:
  "pipeline_of_node n = Inr pl \<longleftrightarrow>
     py_path n [''pipeline'', ''name''] = Inr (name pl)
     \<and> py_path n [''pipeline'', ''color''] = Inr (color pl)
     \<and> py_path n [''pipeline'', ''slug''] = Inr (slug pl)"
  by (cases pl) (auto simp: pipeline_of_node_def bind_err_eq_Inr simp del: py_path.simps)

lemma build_of_node_iff:
  "build_of_node n js pl = Inr b \<longleftrightarrow>
     py_getitem n ''message'' = Inr (commit_message b)
     \<and> py_getitem n ''number'' = Inr (number b)
     \<and> py_getitem n ''state'' = Inr (Build.state b)
     \<and> pipeline b = pl \<and> jobs b = js"
  by (cases b) (auto simp: build_of_node_def bind_err_eq_Inr)

lemma build_of_edge_iff: "build_of_edge e = Inr b \<longleftrightarrow> edge_presents e b"
proof (cases "py_getitem e ''node''")
  case (Inl err)
  then show ?thesis by (simp add: build_of_edge_def edge_presents_def)
next
  case (Inr n)
  have l: "build_of_edge e = Inr b \<longleftrightarrow>
             (\<exists>jes. bind_err (py_path n [''jobs'', ''edges'']) py_iter = Inr jes
                    \<and> list_all2 job_edge_presents jes (jobs b))
             \<and> pipeline_of_node n = Inr (pipeline b)
             \<and> build_of_node n (jobs b) (pipeline b) = Inr b"
    using Inr
    by (auto simp: build_of_edge_def bind_err_eq_Inr collect_job_of_edge build_of_node_iff
        simp del: py_path.simps)
  have r: "edge_presents e b \<longleftrightarrow>
             py_path n [''pipeline'', ''name''] = Inr (name (pipeline b))
             \<and> py_path n [''pipeline'', ''color''] = Inr (color (pipeline b))
             \<and> py_path n [''pipeline'', ''slug''] = Inr (slug (pipeline b))
             \<and> py_getitem n ''message'' = Inr (commit_message b)
             \<and> py_getitem n ''number'' = Inr (number b)
             \<and> py_getitem n ''state'' = Inr (Build.state b)
             \<and> (\<exists>jes. bind_err (py_path n [''jobs'', ''edges'']) py_iter = Inr jes
                    \<and> list_all2 job_edge_presents jes (jobs b))"
    unfolding edge_presents_def py_path_node Inr bind_err_Inr py_path_single
    by (cases "bind_err (py_path n [''jobs'', ''edges'']) py_iter")
       (simp_all del: py_path.simps)
  show ?thesis unfolding l r pipeline_of_node_iff build_of_node_iff by blast
qed

lemma collect_build_of_edge:
  "collect build_of_edge edges = Inr builds \<longleftrightarrow> list_all2 edge_presents edges builds"
  by (simp add: collect_iff build_of_edge_iff)

lemma list_all2_ex_iff:
  "(\<exists>ys. list_all2 P xs ys) \<longleftrightarrow> (\<forall>x\<in>set xs. \<exists>y. P x y)"
proof
  assume "\<exists>ys. list_all2 P xs ys"
  then obtain ys where l: "list_all2 P xs ys" by blast
  show "\<forall>x\<in>set xs. \<exists>y. P x y"
  proof
    fix x assume "x \<in> set xs"
    then obtain i where i: "i < length xs" "xs ! i = x" by (auto simp: in_set_conv_nth)
    from list_all2_nthD [OF l i(1)] i(2) show "\<exists>y. P x y" by blast
  qed
next
  assume "\<forall>x\<in>set xs. \<exists>y. P x y"
  then show "\<exists>ys. list_all2 P xs ys" by (rule list_all2_choice)
qed

lemma user_builds_request:
  "graphql_request (client s) GetUserBuilds_query
     [(''limit'', JInt limit),
      (''state_filter'', JList (map JStr (if show_finished then [] else BUILD_RUNNING_STATES)))]
   = \<lparr>meth = POST, url = graphql_base_url (client s), headers = Buildkite.headers (client s),
      json_body = Some (JObj [(''query'', JStr GetUserBuilds_query),
                              (''variables'',
                               JObj [(''limit'', JInt limit),
                                     (''state_filter'',
                                      JList (if show_finished then []
                                             else [JStr ''CREATING'', JStr ''RUNNING'',
                                                   JStr ''FAILING'', JStr ''CANCELING'',
                                                   JStr ''BLOCKED'', JStr ''SCHEDULED'']))])]),
      allow_redirects = True\<rparr>"
  by (simp add: graphql_request_def BUILD_RUNNING_STATES_def)

lemma get_user_builds_edges:
  assumes "answers net s
             (graphql_request (client s) GetUserBuilds_query
                [(''limit'', JInt limit),
                 (''state_filter'',
                  JList (map JStr (if show_finished then [] else BUILD_RUNNING_STATES)))])
             result"
    and "py_path result [''data'', ''viewer'', ''user'', ''builds'', ''edges''] = Inr (JList edges)"
  shows "fst (get_user_builds net limit show_finished s) = collect build_of_edge edges"
proof -
  from assms(2) obtain d where d: "py_getitem result ''data'' = Inr d"
    and e: "py_path d [''viewer'', ''user'', ''builds'', ''edges''] = Inr (JList edges)"
    by (cases "py_getitem result ''data''") simp_all
  show ?thesis
    by (simp add: get_user_builds_def Let_def bind_io_eq graphql_post_answers [OF assms(1)]
          lift_err_def d e del: py_path.simps)
qed

lemma edge_presents_state:
  "edge_presents e b \<Longrightarrow> py_path e [''node'', ''state''] = Inr (Build.state b)"
  by (simp add: edge_presents_def del: py_path.simps)


lemma edge_presents_build_edge: "edge_presents (build_edge b) b"
  using build_of_edge_build_edge [of b] by (simp only: build_of_edge_iff)

lemma list_all2_build_edge: "list_all2 edge_presents (map build_edge bs) bs"
  by (induction bs) (simp_all add: edge_presents_build_edge)

lemma user_builds_json_edges:
  "py_path (user_builds_json edges) [''data'', ''viewer'', ''user'', ''builds'', ''edges'']
   = Inr (JList edges)"
  by (simp add: user_builds_json_def)


section \<open>The formatter\<close>

text \<open>
  Claim C1.  The claim asks that \<open>display_build\<close> does not fail on a build without jobs.
  The code divides by \<open>len(build.jobs)\<close> with no guard: whatever the other fields are, a
  build whose job list is empty makes \<open>display_build\<close> raise \<open>ZeroDivisionError\<close>, and no
  line is produced.
\<close>

theorem display_build_zero_jobs:
  "display_build (build\<lparr>jobs := []\<rparr>) = Inl ZeroDivisionError"
  by (simp add: display_build_def total_jobs_def true_div_def)

section \<open>The build page URL\<close>

text \<open>
  Claim C2, the example as the claim gives it.  \<open>BASE_URL\<close> already ends with the
  organisation \<open>retool\<close>, so for the slug \<open>retool/my-pipeline\<close> and the number 42 the
  property is \<open>https://buildkite.com/retool/retool/my-pipeline/builds/42\<close>, not the URL
  of the claim.
\<close>

theorem Build_url_example_differs:
  "slug (pipeline example_build) = ''retool/my-pipeline'' \<and> number example_build = 42
   \<and> Build_url example_build = ''https://buildkite.com/retool/retool/my-pipeline/builds/42''
   \<and> Build_url example_build \<noteq> ''https://buildkite.com/retool/my-pipeline/builds/42''"
  by (simp add: example_build_def Build_url_def BASE_URL_def str_int_def str_nat.simps
        digit_char_def)

text \<open>
  Claim C2, amended.  For every build the URL is \<open>BASE_URL\<close>, a slash, the pipeline slug,
  \<open>/builds/\<close> and the decimal build number, with \<open>BASE_URL\<close> the address
  \<open>https://buildkite.com/retool\<close>.  The slug \<open>retool/my-pipeline\<close> with number 42 gives
  \<open>https://buildkite.com/retool/retool/my-pipeline/builds/42\<close>; the URL
  \<open>https://buildkite.com/retool/my-pipeline/builds/42\<close> is the one of the slug
  \<open>my-pipeline\<close>.
\<close>

theorem Build_url_format:
  "Build_url build = BASE_URL @ ''/'' @ slug (pipeline build) @ ''/builds/'' @ str_int (number build)
   \<and> BASE_URL = ''https://buildkite.com/retool''
   \<and> (slug (pipeline build) = ''retool/my-pipeline'' \<and> number build = 42
        \<longrightarrow> Build_url build = ''https://buildkite.com/retool/retool/my-pipeline/builds/42'')
   \<and> (slug (pipeline build) = ''my-pipeline'' \<and> number build = 42
        \<longrightarrow> Build_url build = ''https://buildkite.com/retool/my-pipeline/builds/42'')"
  by (simp add: Build_url_def BASE_URL_def str_int_def str_nat.simps digit_char_def)

text \<open>Claim C2: the amended statement at two builds, one for each slug.\<close>

theorem Build_url_format_witness:
  "slug (pipeline example_build) = ''retool/my-pipeline'' \<and> number example_build = 42
   \<and> Build_url example_build = ''https://buildkite.com/retool/retool/my-pipeline/builds/42''
   \<and> slug (pipeline (two_line_build)) = ''my-pipeline'' \<and> number two_line_build = 42
   \<and> Build_url two_line_build = ''https://buildkite.com/retool/my-pipeline/builds/42''"
proof -
  have a: "slug (pipeline example_build) = ''retool/my-pipeline'' \<and> number example_build = 42"
    by (simp add: example_build_def)
  have b: "slug (pipeline two_line_build) = ''my-pipeline'' \<and> number two_line_build = 42"
    by (simp add: two_line_build_def example_build_def)
  have c: "Build_url example_build = ''https://buildkite.com/retool/retool/my-pipeline/builds/42''"
    using Build_url_format [of example_build] a by blast
  have d: "Build_url two_line_build = ''https://buildkite.com/retool/my-pipeline/builds/42''"
    using Build_url_format [of two_line_build] b by blast
  from a b c d show ?thesis by blast
qed

section \<open>The displayed percentage\<close>




section \<open>The layout of the line\<close>

text \<open>
  Claim C8, as stated for every build.  A pipeline name that holds a line feed is copied
  into the line as it is, so the output of \<open>display_build\<close> has an embedded newline.
\<close>

theorem display_build_newline_example:
  "jobs two_line_build \<noteq> []
   \<and> display_build two_line_build = Inr (''My'' @ [CHR 0x0A] @ ''Pipeline                                        42            50% finished    State: RUNNING'')
   \<and> CHR 0x0A \<in> set (''My'' @ [CHR 0x0A] @ ''Pipeline                                        42            50% finished    State: RUNNING'')"
  by code_simp

text \<open>
  Claim C8, amended.  For a build with at least one job the result is the line made of
  the pipeline name left-aligned in 50 columns, one space, the build number left-aligned
  in 10 columns, the percentage with no decimals right-aligned in 6 columns,
  \<open>% finished\<close> and four spaces, and \<open>State: \<close> with the state left-aligned in 20
  columns, with the trailing whitespace removed.  The line is not empty, does not end
  with whitespace, and holds no line feed unless the pipeline name or the state does.
\<close>

theorem display_build_layout:
  fixes build :: typed_Build
  defines "line \<equiv> format_left 50 (name (pipeline build)) @ '' ''
                 @ format_left 10 (str_int (number build))
                 @ format_right 6
                     (format_0f (of_int (finished_jobs build * 100) / of_int (total_jobs build)))
                 @ ''% finished    ''
                 @ format_left 20 (''State: '' @ Build.state build)"
  assumes "jobs build \<noteq> []"
  shows "display_build build = Inr (rstrip line)
         \<and> rstrip line \<noteq> []
         \<and> \<not> py_isspace (last (rstrip line))
         \<and> (CHR 0x0A \<notin> set (name (pipeline build)) \<and> CHR 0x0A \<notin> set (Build.state build)
              \<longrightarrow> CHR 0x0A \<notin> set (rstrip line))"
proof (intro conjI impI)
  show "display_build build = Inr (rstrip line)"
    unfolding line_def using assms(2) by (rule display_build_whole_line)
  have "CHR ''%'' \<in> set line" unfolding line_def by simp
  then have "\<exists>c\<in>set line. \<not> py_isspace c" using percent_sign_not_space by blast
  then show ne: "rstrip line \<noteq> []" by (rule rstrip_nonempty)
  then show "\<not> py_isspace (last (rstrip line))" by (rule rstrip_last)
next
  assume nl: "CHR 0x0A \<notin> set (name (pipeline build)) \<and> CHR 0x0A \<notin> set (Build.state build)"
  have "CHR 0x0A \<notin> set line"
    unfolding line_def using percentage_bounds(1) [OF assms(2)] nl
    by (intro newline_not_in_line) simp_all
  then show "CHR 0x0A \<notin> set (rstrip line)" using set_rstrip [of line] by blast
qed

text \<open>Claim C8: the amended statement at the sample build.\<close>

theorem display_build_layout_witness:
  "jobs example_build \<noteq> []
   \<and> CHR 0x0A \<notin> set (name (pipeline example_build))
   \<and> CHR 0x0A \<notin> set (Build.state example_build)
   \<and> display_build example_build = Inr ''My Pipeline                                        42            50% finished    State: RUNNING''
   \<and> CHR 0x0A \<notin> set ''My Pipeline                                        42            50% finished    State: RUNNING''"
proof -
  have h: "jobs example_build \<noteq> []" by (simp add: example_build_def)
  have n: "CHR 0x0A \<notin> set (name (pipeline example_build))
           \<and> CHR 0x0A \<notin> set (Build.state example_build)"
    by (simp add: example_build_def)
  have ev: "display_build example_build = Inr ''My Pipeline                                        42            50% finished    State: RUNNING''"
    by code_simp
  from display_build_layout [OF h] n ev h show ?thesis by simp
qed

section \<open>The viewer's builds\<close>

text \<open>
  Claim C3, as stated for every response.  The client hands the state filter and the
  limit to the service and keeps every edge of the response.  A service that answers
  with a passed build, a running build and a blocked build, whatever it is asked, makes
  \<open>get_user_builds\<close> with \<open>show_finished = False\<close> and \<open>limit = 1\<close> return the three
  builds: the first is not in a running state, and there are more than \<open>limit\<close> of them.
\<close>

theorem get_user_builds_unfiltered_example:
  "fst (get_user_builds three_builds_api 1 False fresh_session)
     = Inr [stored finished_build, stored example_build, uncoloured_build]
   \<and> Build.state (stored finished_build) = JStr ''PASSED''
   \<and> ''PASSED'' \<notin> set BUILD_RUNNING_STATES
   \<and> \<not> int (length [stored finished_build, stored example_build, uncoloured_build]) \<le> 1"
proof -
  have "fst (get_user_builds three_builds_api 1 False fresh_session)
        = Inr [stored finished_build, stored example_build, uncoloured_build]"
    unfolding three_builds_api_def by (rule get_user_builds_answers) (rule always_answer_answers)
  moreover have "Build.state (stored finished_build) = JStr ''PASSED''"
    by (simp add: finished_build_def stored_def)
  moreover have "''PASSED'' \<notin> set BUILD_RUNNING_STATES"
    by (simp add: BUILD_RUNNING_STATES_def)
  ultimately show ?thesis by simp
qed

text \<open>
  Claim C3, amended.  \<open>get_user_builds\<close> sends one request, a POST to the GraphQL
  endpoint whose body holds the query document, which passes the two variables on as
  \<open>builds(first: $limit, state: $state_filter)\<close>, and the variables \<open>limit\<close> and
  \<open>state_filter\<close>: the six running states for \<open>show_finished = False\<close>, the empty list
  for \<open>show_finished = True\<close>.  It filters and truncates nothing itself.  When the request
  is answered and the response holds a list of edges, it returns a list of builds exactly
  when every edge holds the fields the query selects, and then the builds are those the
  edges present: one build per edge, in the order of the response, each with the values
  of its edge, so as many builds as there are edges and each with the state of its edge.
\<close>

theorem get_user_builds_returns_response:
  fixes net :: transport and s :: session and limit :: int and show_finished :: bool
    and result :: json and edges :: "json list" and builds :: "json_Build list"
  defines "rq \<equiv>
     \<lparr>meth = POST, url = graphql_base_url (client s), headers = Buildkite.headers (client s),
      json_body = Some (JObj [(''query'', JStr GetUserBuilds_query),
                              (''variables'',
                               JObj [(''limit'', JInt limit),
                                     (''state_filter'',
                                      JList (if show_finished then []
                                             else [JStr ''CREATING'', JStr ''RUNNING'',
                                                   JStr ''FAILING'', JStr ''CANCELING'',
                                                   JStr ''BLOCKED'', JStr ''SCHEDULED'']))])]),
      allow_redirects = True\<rparr>"
  assumes "answers net s rq result"
    and "py_path result [''data'', ''viewer'', ''user'', ''builds'', ''edges''] = Inr (JList edges)"
  shows "snd (get_user_builds net limit show_finished s) = s\<lparr>sent := sent s @ [rq]\<rparr>
         \<and> sublist ''builds(first: $limit, state: $state_filter)'' GetUserBuilds_query
         \<and> (fst (get_user_builds net limit show_finished s) = Inr builds
              \<longleftrightarrow> list_all2 edge_presents edges builds)
         \<and> ((\<exists>bs. fst (get_user_builds net limit show_finished s) = Inr bs)
              \<longleftrightarrow> (\<forall>e\<in>set edges. \<exists>b. edge_presents e b))
         \<and> (fst (get_user_builds net limit show_finished s) = Inr builds
              \<longrightarrow> length builds = length edges
                  \<and> (\<forall>i<length edges.
                        py_path (edges ! i) [''node'', ''state'']
                        = Inr (Build.state (builds ! i))))"
proof -
  have a: "answers net s
             (graphql_request (client s) GetUserBuilds_query
                [(''limit'', JInt limit),
                 (''state_filter'',
                  JList (map JStr (if show_finished then [] else BUILD_RUNNING_STATES)))])
             result"
    using assms(2) unfolding rq_def user_builds_request .
  have v: "\<And>bs. fst (get_user_builds net limit show_finished s) = Inr bs
                \<longleftrightarrow> list_all2 edge_presents edges bs"
    by (simp only: get_user_builds_edges [OF a assms(3)] collect_build_of_edge)
  have c1: "snd (get_user_builds net limit show_finished s) = s\<lparr>sent := sent s @ [rq]\<rparr>"
    unfolding rq_def by (simp only: get_user_builds_session user_builds_request)
  have c2: "sublist ''builds(first: $limit, state: $state_filter)'' GetUserBuilds_query"
    by code_simp
  have c4: "(\<exists>bs. fst (get_user_builds net limit show_finished s) = Inr bs)
              \<longleftrightarrow> (\<forall>e\<in>set edges. \<exists>b. edge_presents e b)"
    by (simp only: v list_all2_ex_iff)
  have c5: "fst (get_user_builds net limit show_finished s) = Inr builds
              \<longrightarrow> length builds = length edges
                  \<and> (\<forall>i<length edges.
                        py_path (edges ! i) [''node'', ''state'']
                        = Inr (Build.state (builds ! i)))"
  proof
    assume "fst (get_user_builds net limit show_finished s) = Inr builds"
    then have l: "list_all2 edge_presents edges builds" by (simp only: v)
    then have len: "length builds = length edges" by (simp add: list_all2_lengthD)
    have "\<forall>i<length edges.
            py_path (edges ! i) [''node'', ''state''] = Inr (Build.state (builds ! i))"
    proof (intro allI impI)
      fix i assume "i < length edges"
      with l have "edge_presents (edges ! i) (builds ! i)" by (rule list_all2_nthD)
      then show "py_path (edges ! i) [''node'', ''state''] = Inr (Build.state (builds ! i))"
        by (rule edge_presents_state)
    qed
    with len show "length builds = length edges
                  \<and> (\<forall>i<length edges.
                        py_path (edges ! i) [''node'', ''state'']
                        = Inr (Build.state (builds ! i)))"
      by blast
  qed
  from c1 c2 v [of builds] c4 c5 show ?thesis by blast
qed

text \<open>Claim C3: the amended statement at the service of the example above, whose third
  build has no colour and no message; and a build with a job that is not a command job,
  whose edge presents no build and makes the call raise \<open>KeyError\<close>.\<close>

theorem get_user_builds_returns_response_witness:
  "answers three_builds_api fresh_session
     \<lparr>meth = POST, url = ''https://graphql.buildkite.com/v1'',
      headers = [(''Authorization'', ''Bearer secret''), (''Content-Type'', ''application/json'')],
      json_body = Some (JObj [(''query'', JStr GetUserBuilds_query),
                              (''variables'',
                               JObj [(''limit'', JInt 10),
                                     (''state_filter'',
                                      JList [JStr ''CREATING'', JStr ''RUNNING'',
                                             JStr ''FAILING'', JStr ''CANCELING'',
                                             JStr ''BLOCKED'', JStr ''SCHEDULED''])])]),
      allow_redirects = True\<rparr>
     (user_builds_response [stored finished_build, stored example_build, uncoloured_build])
   \<and> get_user_builds three_builds_api 10 False fresh_session =
       (Inr [stored finished_build, stored example_build, uncoloured_build],
        \<lparr>client = Buildkite_init ''retool'' ''secret'',
         sent = [\<lparr>meth = POST, url = ''https://graphql.buildkite.com/v1'',
                  headers = [(''Authorization'', ''Bearer secret''),
                             (''Content-Type'', ''application/json'')],
                  json_body = Some (JObj [(''query'', JStr GetUserBuilds_query),
                              (''variables'',
                               JObj [(''limit'', JInt 10),
                                     (''state_filter'',
                                      JList [JStr ''CREATING'', JStr ''RUNNING'',
                                             JStr ''FAILING'', JStr ''CANCELING'',
                                             JStr ''BLOCKED'', JStr ''SCHEDULED''])])]),
                  allow_redirects = True\<rparr>]\<rparr>)
   \<and> color (pipeline uncoloured_build) = JNull
   \<and> fst (get_user_builds waiting_api 10 False fresh_session) = Inl (KeyError ''state'')
   \<and> \<not> (\<exists>b. edge_presents waiting_build_edge b)"
proof -
  let ?bs = "[stored finished_build, stored example_build, uncoloured_build]"
  let ?rq = "\<lparr>meth = POST, url = graphql_base_url (client fresh_session),
      headers = Buildkite.headers (client fresh_session),
      json_body = Some (JObj [(''query'', JStr GetUserBuilds_query),
                              (''variables'',
                               JObj [(''limit'', JInt 10),
                                     (''state_filter'',
                                      JList (if False then []
                                             else [JStr ''CREATING'', JStr ''RUNNING'',
                                                   JStr ''FAILING'', JStr ''CANCELING'',
                                                   JStr ''BLOCKED'', JStr ''SCHEDULED'']))])]),
      allow_redirects = True\<rparr>"
  have a: "answers three_builds_api fresh_session ?rq (user_builds_response ?bs)"
    unfolding three_builds_api_def by (rule always_answer_answers)
  have p: "py_path (user_builds_response ?bs) [''data'', ''viewer'', ''user'', ''builds'', ''edges'']
           = Inr (JList (map build_edge ?bs))"
    unfolding user_builds_response_def by (rule user_builds_json_edges)
  note t = get_user_builds_returns_response [OF a p, where builds = ?bs]
  have f: "fst (get_user_builds three_builds_api 10 False fresh_session) = Inr ?bs"
    using t [THEN conjunct2, THEN conjunct2, THEN conjunct1] list_all2_build_edge [of ?bs]
    by (rule iffD2)
  have sn: "snd (get_user_builds three_builds_api 10 False fresh_session)
            = fresh_session\<lparr>sent := sent fresh_session @ [?rq]\<rparr>"
    using t by (rule conjunct1)
  have whole: "get_user_builds three_builds_api 10 False fresh_session
               = (Inr ?bs, fresh_session\<lparr>sent := sent fresh_session @ [?rq]\<rparr>)"
    using f sn by (simp add: prod_eq_iff)
  have lit: "fresh_session\<lparr>sent := sent fresh_session @ [?rq]\<rparr>
        = \<lparr>client = Buildkite_init ''retool'' ''secret'',
           sent = [\<lparr>meth = POST, url = ''https://graphql.buildkite.com/v1'',
                  headers = [(''Authorization'', ''Bearer secret''),
                             (''Content-Type'', ''application/json'')],
                  json_body = Some (JObj [(''query'', JStr GetUserBuilds_query),
                              (''variables'',
                               JObj [(''limit'', JInt 10),
                                     (''state_filter'',
                                      JList [JStr ''CREATING'', JStr ''RUNNING'',
                                             JStr ''FAILING'', JStr ''CANCELING'',
                                             JStr ''BLOCKED'', JStr ''SCHEDULED''])])]),
                  allow_redirects = True\<rparr>]\<rparr>"
    by (simp add: fresh_session_def Buildkite_init_def)
  have a': "answers three_builds_api fresh_session
     \<lparr>meth = POST, url = ''https://graphql.buildkite.com/v1'',
      headers = [(''Authorization'', ''Bearer secret''), (''Content-Type'', ''application/json'')],
      json_body = Some (JObj [(''query'', JStr GetUserBuilds_query),
                              (''variables'',
                               JObj [(''limit'', JInt 10),
                                     (''state_filter'',
                                      JList [JStr ''CREATING'', JStr ''RUNNING'',
                                             JStr ''FAILING'', JStr ''CANCELING'',
                                             JStr ''BLOCKED'', JStr ''SCHEDULED''])])]),
      allow_redirects = True\<rparr>
     (user_builds_response ?bs)"
    unfolding three_builds_api_def by (rule always_answer_answers)
  have nul: "color (pipeline uncoloured_build) = JNull" by (simp add: uncoloured_build_def)
  have w: "build_of_edge waiting_build_edge = Inl (KeyError ''state'')"
    by (simp add: build_of_edge_def waiting_build_edge_def job_of_edge_def)
  have wa: "answers waiting_api fresh_session
              (graphql_request (client fresh_session) GetUserBuilds_query
                 [(''limit'', JInt 10),
                  (''state_filter'',
                   JList (map JStr (if False then [] else BUILD_RUNNING_STATES)))])
              (user_builds_json [waiting_build_edge])"
    unfolding waiting_api_def by (rule always_answer_answers)
  have wf: "fst (get_user_builds waiting_api 10 False fresh_session) = Inl (KeyError ''state'')"
    by (simp add: get_user_builds_edges [OF wa user_builds_json_edges] w)
  have wn: "\<not> (\<exists>b. edge_presents waiting_build_edge b)"
    using w by (simp add: build_of_edge_iff [symmetric])
  from a' whole [unfolded lit] nul wf wn show ?thesis by blast
qed

section \<open>Looking a build up\<close>

text \<open>
  Claim C4.  For \<open>get_build_url_from_commit\<close> and \<open>get_build_url_from_branch\<close> alike:
  when the query is answered and the response holds a list of edges, the result is the
  not-found error if the list is empty and otherwise what the first edge holds under
  \<open>node\<close>, \<open>url\<close>, whatever the later edges are; the not-found error is raised exactly
  when the list is empty.  Whenever the not-found error is raised, its message is
  \<open>No build found for commit\<close> (or \<open>branch\<close>) followed by the value asked for, and the
  query was answered with a response whose edges are empty.
\<close>

theorem get_build_url_lookup:
  "(answers net s
      (graphql_request (client s) getBuildFromCommit_query [(''commit_sha'', JStr v)]) result
    \<and> py_path result [''data'', ''pipeline'', ''builds'', ''edges''] = Inr (JList edges)
    \<longrightarrow> fst (get_build_url_from_commit net v s)
          = (case edges of
               [] \<Rightarrow> Inl (BuildkiteNotFoundException (''No build found for commit '' @ v))
             | edge # rest \<Rightarrow> py_path edge [''node'', ''url''])
        \<and> ((\<exists>m. fst (get_build_url_from_commit net v s) = Inl (BuildkiteNotFoundException m))
             \<longleftrightarrow> edges = []))
   \<and> (fst (get_build_url_from_commit net v s) = Inl (BuildkiteNotFoundException m)
      \<longrightarrow> m = ''No build found for commit '' @ v
          \<and> (\<exists>result edges.
                answers net s
                  (graphql_request (client s) getBuildFromCommit_query [(''commit_sha'', JStr v)])
                  result
                \<and> py_path result [''data'', ''pipeline'', ''builds'', ''edges''] = Inr edges
                \<and> \<not> py_truthy edges))
   \<and> (answers net s
        (graphql_request (client s) getBuildFromBranch_query [(''branch'', JStr v)]) result
      \<and> py_path result [''data'', ''pipeline'', ''builds'', ''edges''] = Inr (JList edges)
      \<longrightarrow> fst (get_build_url_from_branch net v s)
            = (case edges of
                 [] \<Rightarrow> Inl (BuildkiteNotFoundException (''No build found for branch '' @ v))
               | edge # rest \<Rightarrow> py_path edge [''node'', ''url''])
          \<and> ((\<exists>m. fst (get_build_url_from_branch net v s) = Inl (BuildkiteNotFoundException m))
               \<longleftrightarrow> edges = []))
   \<and> (fst (get_build_url_from_branch net v s) = Inl (BuildkiteNotFoundException m)
      \<longrightarrow> m = ''No build found for branch '' @ v
          \<and> (\<exists>result edges.
                answers net s
                  (graphql_request (client s) getBuildFromBranch_query [(''branch'', JStr v)])
                  result
                \<and> py_path result [''data'', ''pipeline'', ''builds'', ''edges''] = Inr edges
                \<and> \<not> py_truthy edges))"
proof (intro conjI impI)
  assume h: "answers net s
      (graphql_request (client s) getBuildFromCommit_query [(''commit_sha'', JStr v)]) result
    \<and> py_path result [''data'', ''pipeline'', ''builds'', ''edges''] = Inr (JList edges)"
  then have a: "answers net s
      (graphql_request (client s) getBuildFromCommit_query [(''commit_sha'', JStr v)]) result"
    and p: "py_path result [''data'', ''pipeline'', ''builds'', ''edges''] = Inr (JList edges)"
    by simp_all
  show r: "fst (get_build_url_from_commit net v s)
          = (case edges of
               [] \<Rightarrow> Inl (BuildkiteNotFoundException (''No build found for commit '' @ v))
             | edge # rest \<Rightarrow> py_path edge [''node'', ''url''])"
    by (simp only: get_build_url_from_commit_answers [OF a] lookup_decision_list [OF p])
  show "(\<exists>m. fst (get_build_url_from_commit net v s) = Inl (BuildkiteNotFoundException m))
             \<longleftrightarrow> edges = []"
    unfolding r first_edge_not_found by simp
next
  assume "fst (get_build_url_from_commit net v s) = Inl (BuildkiteNotFoundException m)"
  from commit_not_found_only_if [OF this]
  show "m = ''No build found for commit '' @ v"
    and "\<exists>result edges.
                answers net s
                  (graphql_request (client s) getBuildFromCommit_query [(''commit_sha'', JStr v)])
                  result
                \<and> py_path result [''data'', ''pipeline'', ''builds'', ''edges''] = Inr edges
                \<and> \<not> py_truthy edges"
    by blast+
next
  assume h: "answers net s
      (graphql_request (client s) getBuildFromBranch_query [(''branch'', JStr v)]) result
    \<and> py_path result [''data'', ''pipeline'', ''builds'', ''edges''] = Inr (JList edges)"
  then have a: "answers net s
      (graphql_request (client s) getBuildFromBranch_query [(''branch'', JStr v)]) result"
    and p: "py_path result [''data'', ''pipeline'', ''builds'', ''edges''] = Inr (JList edges)"
    by simp_all
  show r: "fst (get_build_url_from_branch net v s)
          = (case edges of
               [] \<Rightarrow> Inl (BuildkiteNotFoundException (''No build found for branch '' @ v))
             | edge # rest \<Rightarrow> py_path edge [''node'', ''url''])"
    by (simp only: get_build_url_from_branch_answers [OF a] lookup_decision_list [OF p])
  show "(\<exists>m. fst (get_build_url_from_branch net v s) = Inl (BuildkiteNotFoundException m))
             \<longleftrightarrow> edges = []"
    unfolding r first_edge_not_found by simp
next
  assume "fst (get_build_url_from_branch net v s) = Inl (BuildkiteNotFoundException m)"
  from branch_not_found_only_if [OF this]
  show "m = ''No build found for branch '' @ v"
    and "\<exists>result edges.
                answers net s
                  (graphql_request (client s) getBuildFromBranch_query [(''branch'', JStr v)])
                  result
                \<and> py_path result [''data'', ''pipeline'', ''builds'', ''edges''] = Inr edges
                \<and> \<not> py_truthy edges"
    by blast+
qed

text \<open>Claim C4: the commit \<open>abc123\<close> and the branch \<open>main\<close>, at a service that finds no
  build and at one that finds two.\<close>

theorem get_build_url_lookup_witness:
  "answers no_build_api fresh_session
     (graphql_request (client fresh_session) getBuildFromCommit_query
        [(''commit_sha'', JStr ''abc123'')])
     (lookup_response (JList []))
   \<and> fst (get_build_url_from_commit no_build_api ''abc123'' fresh_session)
       = Inl (BuildkiteNotFoundException ''No build found for commit abc123'')
   \<and> fst (get_build_url_from_branch no_build_api ''main'' fresh_session)
       = Inl (BuildkiteNotFoundException ''No build found for branch main'')
   \<and> fst (get_build_url_from_commit found_api ''abc123'' fresh_session)
       = Inr (JStr ''https://buildkite.com/retool/retool-development-dot-tests/builds/7'')
   \<and> fst (get_build_url_from_branch found_api ''main'' fresh_session)
       = Inr (JStr ''https://buildkite.com/retool/retool-development-dot-tests/builds/7'')"
proof -
  have p0: "py_path (lookup_response (JList [])) [''data'', ''pipeline'', ''builds'', ''edges'']
            = Inr (JList [])"
    by (simp add: lookup_response_def)
  have a0c: "answers no_build_api fresh_session
     (graphql_request (client fresh_session) getBuildFromCommit_query
        [(''commit_sha'', JStr ''abc123'')])
     (lookup_response (JList []))"
    unfolding no_build_api_def by (rule always_answer_answers)
  have a0b: "answers no_build_api fresh_session
     (graphql_request (client fresh_session) getBuildFromBranch_query
        [(''branch'', JStr ''main'')])
     (lookup_response (JList []))"
    unfolding no_build_api_def by (rule always_answer_answers)
  let ?edges = "[url_edge ''https://buildkite.com/retool/retool-development-dot-tests/builds/7'',
                  url_edge ''https://buildkite.com/retool/retool-development-dot-tests/builds/6'']"
  have p1: "py_path (lookup_response (JList ?edges)) [''data'', ''pipeline'', ''builds'', ''edges'']
            = Inr (JList ?edges)"
    by (simp add: lookup_response_def)
  have a1c: "answers found_api fresh_session
     (graphql_request (client fresh_session) getBuildFromCommit_query
        [(''commit_sha'', JStr ''abc123'')])
     (lookup_response (JList ?edges))"
    unfolding found_api_def by (rule always_answer_answers)
  have a1b: "answers found_api fresh_session
     (graphql_request (client fresh_session) getBuildFromBranch_query
        [(''branch'', JStr ''main'')])
     (lookup_response (JList ?edges))"
    unfolding found_api_def by (rule always_answer_answers)
  have u: "py_path (url_edge ''https://buildkite.com/retool/retool-development-dot-tests/builds/7'')
             [''node'', ''url'']
           = Inr (JStr ''https://buildkite.com/retool/retool-development-dot-tests/builds/7'')"
    by (simp add: url_edge_def)
  note t0c = get_build_url_lookup [of no_build_api fresh_session "''abc123''"
            "lookup_response (JList [])" "[]"]
  note t0b = get_build_url_lookup [of no_build_api fresh_session "''main''"
            "lookup_response (JList [])" "[]"]
  note t1c = get_build_url_lookup [of found_api fresh_session "''abc123''"
            "lookup_response (JList ?edges)" ?edges]
  note t1b = get_build_url_lookup [of found_api fresh_session "''main''"
            "lookup_response (JList ?edges)" ?edges]
  have c0: "fst (get_build_url_from_commit no_build_api ''abc123'' fresh_session)
       = Inl (BuildkiteNotFoundException ''No build found for commit abc123'')"
    using t0c [THEN conjunct1, THEN mp, OF conjI [OF a0c p0], THEN conjunct1] by simp
  have b0: "fst (get_build_url_from_branch no_build_api ''main'' fresh_session)
       = Inl (BuildkiteNotFoundException ''No build found for branch main'')"
    using t0b [THEN conjunct2, THEN conjunct2, THEN conjunct1, THEN mp, OF conjI [OF a0b p0],
            THEN conjunct1]
    by simp
  have c1: "fst (get_build_url_from_commit found_api ''abc123'' fresh_session)
       = Inr (JStr ''https://buildkite.com/retool/retool-development-dot-tests/builds/7'')"
    using t1c [THEN conjunct1, THEN mp, OF conjI [OF a1c p1], THEN conjunct1] u
    by (simp del: py_path.simps)
  have b1: "fst (get_build_url_from_branch found_api ''main'' fresh_session)
       = Inr (JStr ''https://buildkite.com/retool/retool-development-dot-tests/builds/7'')"
    using t1b [THEN conjunct2, THEN conjunct2, THEN conjunct1, THEN mp, OF conjI [OF a1b p1],
            THEN conjunct1] u
    by (simp del: py_path.simps)
  from a0c c0 b0 c1 b1 show ?thesis by blast
qed

section \<open>The artifacts of a job\<close>

text \<open>
  Claim C6.  When the count query reports 0, \<open>get_job_artifacts\<close> returns the empty list
  and has sent one request only, the POST of the count document with the variable
  \<open>job_id\<close>.  When it reports a count \<open>n\<close> other than 0, exactly one more request
  follows: the POST to the GraphQL endpoint whose body holds the artifact document and
  the variables \<open>job_id\<close> and \<open>artifact_count\<close>, the latter equal to \<open>n\<close>.  The document
  declares \<open>$artifact_count: Int\<close> and asks for \<open>artifacts(first: $artifact_count)\<close>:
  a single page of \<open>n\<close> edges.
\<close>

theorem get_job_artifacts_requests:
  fixes net :: transport and job_id :: string and s :: session and search :: re_search
    and regex_filter :: "string option" and n :: int
  defines "count_rq \<equiv>
     \<lparr>meth = POST, url = graphql_base_url (client s), headers = Buildkite.headers (client s),
      json_body = Some (JObj [(''query'', JStr getJobArtifactCount_query),
                              (''variables'', JObj [(''job_id'', JStr job_id)])]),
      allow_redirects = True\<rparr>"
    and "page_rq \<equiv>
     \<lparr>meth = POST, url = graphql_base_url (client s), headers = Buildkite.headers (client s),
      json_body = Some (JObj [(''query'', JStr getJobArtfacts_query),
                              (''variables'', JObj [(''job_id'', JStr job_id),
                                                    (''artifact_count'', JInt n)])]),
      allow_redirects = True\<rparr>"
  shows "(fst (get_job_artifact_count net job_id s) = Inr (JInt 0)
            \<longrightarrow> get_job_artifacts search net job_id regex_filter s
                  = (Inr [], s\<lparr>sent := sent s @ [count_rq]\<rparr>))
         \<and> (fst (get_job_artifact_count net job_id s) = Inr (JInt n) \<and> n \<noteq> 0
            \<longrightarrow> snd (get_job_artifacts search net job_id regex_filter s)
                  = s\<lparr>sent := sent s @ [count_rq, page_rq]\<rparr>)
         \<and> sublist ''$artifact_count: Int'' getJobArtfacts_query
         \<and> sublist ''artifacts(first: $artifact_count)'' getJobArtfacts_query"
proof (intro conjI impI)
  assume "fst (get_job_artifact_count net job_id s) = Inr (JInt 0)"
  then have "get_job_artifacts search net job_id regex_filter s =
            (Inr [],
             s\<lparr>sent := sent s
                  @ [graphql_request (client s) getJobArtifactCount_query
                       [(''job_id'', JStr job_id)]]\<rparr>)"
    by (rule get_job_artifacts_zero) simp
  then show "get_job_artifacts search net job_id regex_filter s
                  = (Inr [], s\<lparr>sent := sent s @ [count_rq]\<rparr>)"
    unfolding count_rq_def by (simp add: graphql_request_def)
next
  assume "fst (get_job_artifact_count net job_id s) = Inr (JInt n) \<and> n \<noteq> 0"
  then have "fst (get_job_artifact_count net job_id s) = Inr (JInt n)" "\<not> py_eq_int (JInt n) 0"
    by simp_all
  then have "snd (get_job_artifacts search net job_id regex_filter s) =
            s\<lparr>sent := sent s
                 @ [graphql_request (client s) getJobArtifactCount_query
                      [(''job_id'', JStr job_id)],
                    graphql_request (client s) getJobArtfacts_query
                      [(''job_id'', JStr job_id), (''artifact_count'', JInt n)]]\<rparr>"
    by (simp add: get_job_artifacts_nonzero)
  then show "snd (get_job_artifacts search net job_id regex_filter s)
                  = s\<lparr>sent := sent s @ [count_rq, page_rq]\<rparr>"
    unfolding count_rq_def page_rq_def by (simp add: graphql_request_def)
next
  show "sublist ''$artifact_count: Int'' getJobArtfacts_query"
    by code_simp
next
  show "sublist ''artifacts(first: $artifact_count)'' getJobArtfacts_query"
    by code_simp
qed

text \<open>Claim C6: a job without artifacts and a job with three, with the requests written
  out.\<close>

theorem get_job_artifacts_requests_witness:
  "fst (get_job_artifact_count no_artifacts_api ''job-1'' fresh_session) = Inr (JInt 0)
   \<and> get_job_artifacts literal_search no_artifacts_api ''job-1'' None fresh_session =
       (Inr [],
        \<lparr>client = Buildkite_init ''retool'' ''secret'',
         sent = [\<lparr>meth = POST, url = ''https://graphql.buildkite.com/v1'',
                  headers = [(''Authorization'', ''Bearer secret''),
                             (''Content-Type'', ''application/json'')],
                  json_body = Some (JObj [(''query'', JStr getJobArtifactCount_query),
                                          (''variables'', JObj [(''job_id'', JStr ''job-1'')])]),
                  allow_redirects = True\<rparr>]\<rparr>)
   \<and> fst (get_job_artifact_count three_artifacts_api ''job-1'' fresh_session) = Inr (JInt 3)
   \<and> snd (get_job_artifacts literal_search three_artifacts_api ''job-1'' None fresh_session) =
       \<lparr>client = Buildkite_init ''retool'' ''secret'',
        sent = [\<lparr>meth = POST, url = ''https://graphql.buildkite.com/v1'',
                 headers = [(''Authorization'', ''Bearer secret''),
                            (''Content-Type'', ''application/json'')],
                 json_body = Some (JObj [(''query'', JStr getJobArtifactCount_query),
                                         (''variables'', JObj [(''job_id'', JStr ''job-1'')])]),
                 allow_redirects = True\<rparr>,
                \<lparr>meth = POST, url = ''https://graphql.buildkite.com/v1'',
                 headers = [(''Authorization'', ''Bearer secret''),
                            (''Content-Type'', ''application/json'')],
                 json_body = Some (JObj [(''query'', JStr getJobArtfacts_query),
                                         (''variables'', JObj [(''job_id'', JStr ''job-1''),
                                                               (''artifact_count'', JInt 3)])]),
                 allow_redirects = True\<rparr>]\<rparr>"
proof -
  note t0 = get_job_artifacts_requests
              [where net = no_artifacts_api and job_id = "''job-1''" and s = fresh_session
                 and search = literal_search and regex_filter = None and n = 3]
  note t3 = get_job_artifacts_requests
              [where net = three_artifacts_api and job_id = "''job-1''" and s = fresh_session
                 and search = literal_search and regex_filter = None and n = 3]
  have n: "(3::int) \<noteq> 0" by simp
  note r0 = t0 [THEN conjunct1, THEN mp, OF no_artifacts_count]
  note r3 = t3 [THEN conjunct2, THEN conjunct1, THEN mp, OF conjI [OF three_artifacts_count n]]
  have c0: "get_job_artifacts literal_search no_artifacts_api ''job-1'' None fresh_session =
       (Inr [],
        \<lparr>client = Buildkite_init ''retool'' ''secret'',
         sent = [\<lparr>meth = POST, url = ''https://graphql.buildkite.com/v1'',
                  headers = [(''Authorization'', ''Bearer secret''),
                             (''Content-Type'', ''application/json'')],
                  json_body = Some (JObj [(''query'', JStr getJobArtifactCount_query),
                                          (''variables'', JObj [(''job_id'', JStr ''job-1'')])]),
                  allow_redirects = True\<rparr>]\<rparr>)"
    unfolding r0 by (simp add: fresh_session_def Buildkite_init_def)
  have c3: "snd (get_job_artifacts literal_search three_artifacts_api ''job-1'' None fresh_session) =
       \<lparr>client = Buildkite_init ''retool'' ''secret'',
        sent = [\<lparr>meth = POST, url = ''https://graphql.buildkite.com/v1'',
                 headers = [(''Authorization'', ''Bearer secret''),
                            (''Content-Type'', ''application/json'')],
                 json_body = Some (JObj [(''query'', JStr getJobArtifactCount_query),
                                         (''variables'', JObj [(''job_id'', JStr ''job-1'')])]),
                 allow_redirects = True\<rparr>,
                \<lparr>meth = POST, url = ''https://graphql.buildkite.com/v1'',
                 headers = [(''Authorization'', ''Bearer secret''),
                            (''Content-Type'', ''application/json'')],
                 json_body = Some (JObj [(''query'', JStr getJobArtfacts_query),
                                         (''variables'', JObj [(''job_id'', JStr ''job-1''),
                                                               (''artifact_count'', JInt 3)])]),
                 allow_redirects = True\<rparr>]\<rparr>"
    unfolding r3 by (simp add: fresh_session_def Buildkite_init_def)
  from no_artifacts_count c0 three_artifacts_count c3 show ?thesis by blast
qed

text \<open>
  Claim C7.  When the job has artifacts and the response lists the download URLs
  \<open>urls\<close>, \<open>get_job_artifacts\<close> without a filter returns the node of every URL, in the
  order of the response and with repetitions kept; with a pattern for which
  \<open>re.search\<close> gives an answer on every URL, it returns the nodes of exactly the URLs
  the pattern matches, in the same order.
\<close>

theorem get_job_artifacts_filter:
  assumes "fst (get_job_artifact_count net job_id s) = Inr count" "\<not> py_eq_int count 0"
    and "answers net
           (s\<lparr>sent := sent s
                @ [graphql_request (client s) getJobArtifactCount_query
                     [(''job_id'', JStr job_id)]]\<rparr>)
           (graphql_request (client s) getJobArtfacts_query
              [(''job_id'', JStr job_id), (''artifact_count'', count)])
           (artifacts_response urls)"
  shows "fst (get_job_artifacts search net job_id None s) = Inr (map artifact_node urls)
         \<and> ((\<forall>u\<in>set urls. search pattern (JStr u) = Inr (matches u))
              \<longrightarrow> fst (get_job_artifacts search net job_id (Some pattern) s)
                    = Inr (map artifact_node (filter matches urls)))"
  by (simp add: get_job_artifacts_page [OF assms] artifact_nodes_no_filter
        artifact_nodes_filter)

text \<open>Claim C7: three artifacts, two of them with the same URL, and the pattern
  \<open>log\<close>.\<close>

theorem get_job_artifacts_filter_witness:
  "fst (get_job_artifact_count three_artifacts_api ''job-1'' fresh_session) = Inr (JInt 3)
   \<and> \<not> py_eq_int (JInt 3) 0
   \<and> fst (get_job_artifacts literal_search three_artifacts_api ''job-1'' None fresh_session)
       = Inr [artifact_node ''https://example.test/a.log'',
              artifact_node ''https://example.test/b.txt'',
              artifact_node ''https://example.test/a.log'']
   \<and> fst (get_job_artifacts literal_search three_artifacts_api ''job-1'' (Some ''log'')
            fresh_session)
       = Inr [artifact_node ''https://example.test/a.log'',
              artifact_node ''https://example.test/a.log'']"
proof -
  define matches where "matches = (\<lambda>u. u = ''https://example.test/a.log'')"
  have z: "\<not> py_eq_int (JInt 3) 0" by simp
  have m: "\<forall>u\<in>set sample_urls. literal_search ''log'' (JStr u) = Inr (matches u)"
    unfolding matches_def by code_simp
  have f: "filter matches sample_urls
           = [''https://example.test/a.log'', ''https://example.test/a.log'']"
    unfolding matches_def by code_simp
  note t = get_job_artifacts_filter [OF three_artifacts_count z three_artifacts_page,
             where search = literal_search and pattern = "''log''" and matches = matches]
  have a: "fst (get_job_artifacts literal_search three_artifacts_api ''job-1'' None fresh_session)
           = Inr (map artifact_node sample_urls)"
    using t by (rule conjunct1)
  have b: "fst (get_job_artifacts literal_search three_artifacts_api ''job-1'' (Some ''log'')
            fresh_session)
           = Inr (map artifact_node (filter matches sample_urls))"
    using t [THEN conjunct2] m by (rule mp)
  from a b three_artifacts_count z show ?thesis
    unfolding f by (simp add: sample_urls_def)
qed

text \<open>
  Claim C9.  With \<open>re.search\<close> as Python's library describes it, an artifact is kept
  exactly when the compiled pattern matches at some position of its download URL, and
  the empty pattern, which matches at the start of every string, keeps every artifact.
\<close>

theorem get_job_artifacts_search_semantics:
  assumes "fst (get_job_artifact_count net job_id s) = Inr count" "\<not> py_eq_int count 0"
    and "answers net
           (s\<lparr>sent := sent s
                @ [graphql_request (client s) getJobArtifactCount_query
                     [(''job_id'', JStr job_id)]]\<rparr>)
           (graphql_request (client s) getJobArtfacts_query
              [(''job_id'', JStr job_id), (''artifact_count'', count)])
           (artifacts_response urls)"
  shows "(compile pattern = Some rx
          \<longrightarrow> fst (get_job_artifacts (re_search_of compile match_at) net job_id (Some pattern) s)
                = Inr (map artifact_node
                         (filter (\<lambda>u. \<exists>i\<le>length u. match_at rx u i) urls)))
         \<and> (compile '''' = Some rx0 \<and> (\<forall>u. match_at rx0 u 0)
          \<longrightarrow> fst (get_job_artifacts (re_search_of compile match_at) net job_id (Some '''') s)
                = Inr (map artifact_node urls))"
proof (intro conjI impI)
  assume c: "compile pattern = Some rx"
  have "\<forall>u\<in>set urls. re_search_of compile match_at pattern (JStr u)
                        = Inr (\<exists>i\<le>length u. match_at rx u i)"
    using re_search_of_compiled [of compile pattern rx match_at] c by blast
  then show "fst (get_job_artifacts (re_search_of compile match_at) net job_id (Some pattern) s)
                = Inr (map artifact_node
                         (filter (\<lambda>u. \<exists>i\<le>length u. match_at rx u i) urls))"
    by (simp only: get_job_artifacts_page [OF assms] artifact_nodes_filter)
next
  assume h: "compile '''' = Some rx0 \<and> (\<forall>u. match_at rx0 u 0)"
  then have c: "compile '''' = Some rx0" and m: "\<And>u. match_at rx0 u 0" by simp_all
  have "\<And>u. (\<exists>i\<le>length u. match_at rx0 u i) = True" using m by blast
  then have "\<forall>u\<in>set urls. re_search_of compile match_at '''' (JStr u) = Inr ((\<lambda>u. True) u)"
    using re_search_of_compiled [of compile "[]" rx0 match_at] c by simp
  then have "artifact_nodes (re_search_of compile match_at) (Some '''') (map artifact_edge urls)
             = Inr (map artifact_node (filter (\<lambda>u. True) urls))"
    by (rule artifact_nodes_filter)
  then show "fst (get_job_artifacts (re_search_of compile match_at) net job_id (Some '''') s)
                = Inr (map artifact_node urls)"
    by (simp add: get_job_artifacts_page [OF assms])
qed

text \<open>Claim C9: the pattern \<open>log\<close> keeps the URLs that end in \<open>a.log\<close>, which it does not
  match as a whole, and the empty pattern keeps all three.\<close>

theorem get_job_artifacts_search_semantics_witness:
  "fst (get_job_artifact_count three_artifacts_api ''job-1'' fresh_session) = Inr (JInt 3)
   \<and> literal_compile ''log'' = Some ''log''
   \<and> literal_compile '''' = Some ''''
   \<and> (\<forall>u. literal_match_at '''' u 0)
   \<and> fst (get_job_artifacts (re_search_of literal_compile literal_match_at) three_artifacts_api
            ''job-1'' (Some ''log'') fresh_session)
       = Inr [artifact_node ''https://example.test/a.log'',
              artifact_node ''https://example.test/a.log'']
   \<and> fst (get_job_artifacts (re_search_of literal_compile literal_match_at) three_artifacts_api
            ''job-1'' (Some '''') fresh_session)
       = Inr [artifact_node ''https://example.test/a.log'',
              artifact_node ''https://example.test/b.txt'',
              artifact_node ''https://example.test/a.log'']"
proof -
  have z: "\<not> py_eq_int (JInt 3) 0" by simp
  have c: "literal_compile ''log'' = Some ''log''" by (simp add: literal_compile_def)
  have c0: "literal_compile '''' = Some ''''" by (simp add: literal_compile_def)
  have m0: "\<forall>u. literal_match_at '''' u 0" by (simp add: literal_match_at_def)
  have f: "filter (\<lambda>u. \<exists>i\<le>length u. literal_match_at ''log'' u i) sample_urls
           = [''https://example.test/a.log'', ''https://example.test/a.log'']"
  proof -
    have "\<And>u. (\<exists>i\<le>length u. literal_match_at ''log'' u i)
              = list_ex (literal_match_at ''log'' u) [0..<Suc (length u)]"
      by (simp only: list_ex_upt_Suc)
    then have "filter (\<lambda>u. \<exists>i\<le>length u. literal_match_at ''log'' u i) sample_urls
               = filter (\<lambda>u. list_ex (literal_match_at ''log'' u) [0..<Suc (length u)]) sample_urls"
      by simp
    also have "\<dots> = [''https://example.test/a.log'', ''https://example.test/a.log'']"
      by code_simp
    finally show ?thesis .
  qed
  note t = get_job_artifacts_search_semantics
             [OF three_artifacts_count z three_artifacts_page,
              where compile = literal_compile and pattern = "''log''" and rx = "''log''"
                and match_at = literal_match_at and ?rx0.0 = "[]"]
  have a: "fst (get_job_artifacts (re_search_of literal_compile literal_match_at)
                  three_artifacts_api ''job-1'' (Some ''log'') fresh_session)
           = Inr (map artifact_node
                    (filter (\<lambda>u. \<exists>i\<le>length u. literal_match_at ''log'' u i) sample_urls))"
    using t [THEN conjunct1] c by (rule mp)
  have b: "fst (get_job_artifacts (re_search_of literal_compile literal_match_at)
                  three_artifacts_api ''job-1'' (Some '''') fresh_session)
           = Inr (map artifact_node sample_urls)"
    using t [THEN conjunct2] conjI [OF c0 m0] by (rule mp)
  from a b three_artifacts_count c c0 m0 show ?thesis
    unfolding f by (simp add: sample_urls_def)
qed

section \<open>The instance is never changed\<close>

text \<open>
  Claim C10.  After any sequence of calls of the public methods, with any arguments and
  any behaviour of the service, the instance is the one before the calls (\<open>org_name\<close>,
  \<open>headers\<close> and the two base URLs), the requests sent before are still there, and every
  request sent since carries the headers of the instance.  For an instance made by
  \<open>__init__\<close> these are the \<open>Authorization\<close> header with the bearer token and the JSON
  \<open>Content-Type\<close>.
\<close>

theorem calls_keep_client:
  "client (calls search net operations s) = client s
   \<and> take (length (sent s)) (sent (calls search net operations s)) = sent s
   \<and> list_all (\<lambda>rq. request.headers rq = Buildkite.headers (client s))
        (drop (length (sent s)) (sent (calls search net operations s)))
   \<and> client (calls search net operations \<lparr>client = Buildkite_init org token, sent = []\<rparr>)
       = Buildkite_init org token
   \<and> list_all (\<lambda>rq. request.headers rq =
                       [(''Authorization'', ''Bearer '' @ token),
                        (''Content-Type'', ''application/json'')])
        (sent (calls search net operations \<lparr>client = Buildkite_init org token, sent = []\<rparr>))"
proof -
  have a: "continues s (calls search net operations s)" by (rule continues_calls)
  have b: "continues \<lparr>client = Buildkite_init org token, sent = []\<rparr>
             (calls search net operations \<lparr>client = Buildkite_init org token, sent = []\<rparr>)"
    by (rule continues_calls)
  from a b show ?thesis by (simp add: continues_def Buildkite_init_def)
qed

text \<open>Claim C10: two calls on a fresh instance send three requests, all with the same
  two headers.\<close>

theorem calls_keep_client_witness:
  "client (calls literal_search three_artifacts_api
             [Get_job_artifacts ''job-1'' (Some ''log''), Get_user_builds 10 False]
             fresh_session)
     = Buildkite_init ''retool'' ''secret''
   \<and> list_all (\<lambda>rq. request.headers rq =
                       [(''Authorization'', ''Bearer secret''),
                        (''Content-Type'', ''application/json'')])
        (sent (calls literal_search three_artifacts_api
                 [Get_job_artifacts ''job-1'' (Some ''log''), Get_user_builds 10 False]
                 fresh_session))
   \<and> length (sent (calls literal_search three_artifacts_api
                 [Get_job_artifacts ''job-1'' (Some ''log''), Get_user_builds 10 False]
                 fresh_session)) = 3"
proof -
  have l: "length (sent (calls literal_search three_artifacts_api
                 [Get_job_artifacts ''job-1'' (Some ''log''), Get_user_builds 10 False]
                 fresh_session)) = 3"
    by code_simp
  from calls_keep_client [where search = literal_search and net = three_artifacts_api
         and operations = "[Get_job_artifacts ''job-1'' (Some ''log''), Get_user_builds 10 False]"
         and s = fresh_session and org = "''retool''" and token = "''secret''"] l
  show ?thesis by (simp add: fresh_session_def)
qed


end
